theory Spec2Isabelle
  imports Main "HOL-Library.Word" "HOL-Library.Signed_Division"
begin

unbundle bit_operations_syntax

section \<open>Data model\<close>

text \<open>
  The status enumeration of \<^verbatim>\<open>util/Status.h\<close>. The header is not among the sources;
  the members listed are the ones the two protocol files name. The Boneh-Franklin file
  uses the older, unprefixed spelling (\<^verbatim>\<open>Status\<close>, \<^verbatim>\<open>SUCCESS\<close>, ...), kept below as
  abbreviations. A status that only a helper routine can produce is \<open>CRYPTID_HELPER_ERROR n\<close>.
  The C tests \<^verbatim>\<open>if (status)\<close> read a status as non-zero, that is, different from success.
\<close>

datatype CryptidStatus =
    CRYPTID_SUCCESS
  | CRYPTID_MESSAGE_NULL_ERROR
  | CRYPTID_MESSAGE_LENGTH_ERROR
  | CRYPTID_ILLEGAL_PRIVATE_KEY_ERROR
  | CRYPTID_PUBLIC_PARAMETERS_NULL_ERROR
  | CRYPTID_RESULT_POINTER_NULL_ERROR
  | CRYPTID_IDENTITY_NULL_ERROR
  | CRYPTID_IDENTITY_LENGTH_ERROR
  | CRYPTID_ILLEGAL_PUBLIC_PARAMETERS_ERROR
  | CRYPTID_ILLEGAL_CIPHERTEXT_TUPLE_ERROR
  | CRYPTID_DECRYPTION_FAILED_ERROR
  | CRYPTID_HELPER_ERROR nat

type_synonym Status = CryptidStatus

abbreviation SUCCESS :: Status where "SUCCESS \<equiv> CRYPTID_SUCCESS"
abbreviation MESSAGE_NULL_ERROR :: Status where "MESSAGE_NULL_ERROR \<equiv> CRYPTID_MESSAGE_NULL_ERROR"
abbreviation MESSAGE_LENGTH_ERROR :: Status where "MESSAGE_LENGTH_ERROR \<equiv> CRYPTID_MESSAGE_LENGTH_ERROR"
abbreviation ILLEGAL_PRIVATE_KEY_ERROR :: Status where "ILLEGAL_PRIVATE_KEY_ERROR \<equiv> CRYPTID_ILLEGAL_PRIVATE_KEY_ERROR"
abbreviation PUBLIC_PARAMETERS_NULL_ERROR :: Status where "PUBLIC_PARAMETERS_NULL_ERROR \<equiv> CRYPTID_PUBLIC_PARAMETERS_NULL_ERROR"
abbreviation RESULT_POINTER_NULL_ERROR :: Status where "RESULT_POINTER_NULL_ERROR \<equiv> CRYPTID_RESULT_POINTER_NULL_ERROR"
abbreviation IDENTITY_NULL_ERROR :: Status where "IDENTITY_NULL_ERROR \<equiv> CRYPTID_IDENTITY_NULL_ERROR"
abbreviation IDENTITY_LENGTH_ERROR :: Status where "IDENTITY_LENGTH_ERROR \<equiv> CRYPTID_IDENTITY_LENGTH_ERROR"
abbreviation ILLEGAL_PUBLIC_PARAMETERS_ERROR :: Status where "ILLEGAL_PUBLIC_PARAMETERS_ERROR \<equiv> CRYPTID_ILLEGAL_PUBLIC_PARAMETERS_ERROR"
abbreviation ILLEGAL_CIPHERTEXT_TUPLE_ERROR :: Status where "ILLEGAL_CIPHERTEXT_TUPLE_ERROR \<equiv> CRYPTID_ILLEGAL_CIPHERTEXT_TUPLE_ERROR"
abbreviation DECRYPTION_FAILED_ERROR :: Status where "DECRYPTION_FAILED_ERROR \<equiv> CRYPTID_DECRYPTION_FAILED_ERROR"

text \<open>
  Octets are 8-bit words; a GMP integer (\<^verbatim>\<open>mpz_t\<close>) is an \<open>int\<close>; a C string is a \<open>string\<close>
  without its terminating zero; a pointer that may be \<^verbatim>\<open>NULL\<close> is an \<open>option\<close>.
  The types \<^verbatim>\<open>AffinePoint\<close> and \<^verbatim>\<open>Complex\<close> are declared in headers that are not among
  the sources and are only handed to helper routines, so they are the type variables
  \<open>'pt\<close> and \<open>'cx\<close>. The state of the random source is \<open>'rs\<close>: a routine that draws random
  data takes the state and returns the next one.

  A field \<^verbatim>\<open>x\<close> of a structure is written with a short prefix for its structure
  (\<open>pk_\<close> for \<^verbatim>\<open>PublicKey_ABE\<close>, \<open>mk_\<close> for \<^verbatim>\<open>MasterKey_ABE\<close>, \<open>sk_\<close> for \<^verbatim>\<open>SecretKey_ABE\<close>,
  \<open>em_\<close> for \<^verbatim>\<open>EncryptedMessage_ABE\<close>, \<open>t_\<close> for \<^verbatim>\<open>AccessTree\<close>, \<open>pp_\<close> for
  \<^verbatim>\<open>PublicParameters\<close>, \<open>ct_\<close> for \<^verbatim>\<open>CipherTextTuple\<close>), since several structures share
  field names and several fields are single letters.
\<close>

type_synonym byte = "8 word"

record EllipticCurve =
  ec_a :: int
  ec_b :: int
  fieldOrder :: int

record HashFunction =
  hashLength :: nat
  sha_hash :: "byte list \<Rightarrow> byte list"

record ('pt, 'cx) PublicKey_ABE =
  pk_ellipticCurve :: EllipticCurve
  pk_g :: 'pt
  pk_h :: 'pt
  pk_f :: 'pt
  pk_eggalpha :: 'cx
  pk_hashFunction :: HashFunction
  pk_q :: int

record ('pt, 'cx) MasterKey_ABE =
  mk_beta :: int
  mk_g_alpha :: 'pt
  mk_pubkey :: "('pt, 'cx) PublicKey_ABE"

text \<open>
  A node of the access tree. \<open>t_children\<close> is the array \<^verbatim>\<open>children[MAX_CHILDREN]\<close> of
  child pointers: its length stands for \<^verbatim>\<open>MAX_CHILDREN\<close>, and \<open>None\<close> is a \<^verbatim>\<open>NULL\<close> entry.
  \<open>t_value\<close> is the field \<^verbatim>\<open>value\<close>, the threshold of the node.
\<close>

datatype 'pt AccessTree =
  AccessTree (t_value: int) (t_children: "'pt AccessTree option list")
    (t_attribute: string) (t_attributeLength: int) (t_Cy: 'pt) (t_CyA: 'pt)

record ('pt, 'cx) EncryptedMessage_ABE =
  em_tree :: "'pt AccessTree"
  em_Ctilde :: 'cx
  em_C :: 'pt

text \<open>
  A secret key. The three arrays have \<^verbatim>\<open>MAX_ATTRIBUTES\<close> entries each; the length of
  \<open>sk_attributes\<close> stands for \<^verbatim>\<open>MAX_ATTRIBUTES\<close>, and an unused entry is the empty string.
\<close>

record ('pt, 'cx) SecretKey_ABE =
  sk_D :: 'pt
  sk_Dj :: "'pt list"
  sk_DjA :: "'pt list"
  sk_attributes :: "string list"
  sk_pubkey :: "('pt, 'cx) PublicKey_ABE"

record 'pt PublicParameters =
  pp_ellipticCurve :: EllipticCurve
  pp_q :: int
  pp_pointP :: 'pt
  pp_pointPpublic :: 'pt
  pp_hashFunction :: HashFunction

record 'pt CipherTextTuple =
  ct_cipherU :: 'pt
  ct_cipherV :: "byte list"
  ct_cipherVLength :: nat
  ct_cipherW :: "byte list"
  ct_cipherWLength :: nat

type_synonym Polynom = "int list"

section \<open>Helper routines\<close>

text \<open>
  The routines the two protocol files call and whose bodies are in other files of the
  library (curve and field arithmetic, the pairing, hashing, validation, the random
  source, the tree helpers) or in GMP. Each is a field of the environment \<open>env\<close>, named
  as in the source, and every definition below takes the environment as its first
  argument. A routine with an out-parameter and a status returns the pair of both;
  where the status is an error the second component is not used, and the out-parameter
  is taken not to have been written. The arguments of \<^verbatim>\<open>tate_performPairing\<close> are in the
  order in which the two files pass them (embedding degree, curve, subgroup order, the
  two points). The last field is the macro \<^verbatim>\<open>ATTRIBUTE_LENGTH\<close>, whose header is not
  among the sources either.
\<close>

record ('pt, 'cx, 'rs) env =
  AFFINE_MULTIPLY_IMPL :: "int \<Rightarrow> 'pt \<Rightarrow> EllipticCurve \<Rightarrow> CryptidStatus \<times> 'pt"
  affine_wNAFMultiply :: "int \<Rightarrow> 'pt \<Rightarrow> EllipticCurve \<Rightarrow> Status \<times> 'pt"
  affine_add :: "'pt \<Rightarrow> 'pt \<Rightarrow> EllipticCurve \<Rightarrow> 'pt"
  affine_isInfinity :: "'pt \<Rightarrow> bool"
  affine_isEquals :: "'pt \<Rightarrow> 'pt \<Rightarrow> bool"
  tate_performPairing :: "int \<Rightarrow> EllipticCurve \<Rightarrow> int \<Rightarrow> 'pt \<Rightarrow> 'pt \<Rightarrow> CryptidStatus \<times> 'cx"
  complex_initLong :: "int \<Rightarrow> int \<Rightarrow> 'cx"
  complex_modMul :: "'cx \<Rightarrow> 'cx \<Rightarrow> int \<Rightarrow> 'cx"
  complex_modPow :: "'cx \<Rightarrow> int \<Rightarrow> int \<Rightarrow> 'cx"
  complex_modMulScalar :: "'cx \<Rightarrow> int \<Rightarrow> int \<Rightarrow> 'cx"
  complex_multiplicativeInverse :: "'cx \<Rightarrow> int \<Rightarrow> CryptidStatus \<times> 'cx"
  mpz_invert :: "int \<Rightarrow> int \<Rightarrow> int"
  hashToRange :: "byte list \<Rightarrow> nat \<Rightarrow> int \<Rightarrow> HashFunction \<Rightarrow> int"
  hashToPoint :: "EllipticCurve \<Rightarrow> int \<Rightarrow> int \<Rightarrow> string \<Rightarrow> int \<Rightarrow> HashFunction \<Rightarrow> CryptidStatus \<times> 'pt"
  canonical :: "int \<Rightarrow> 'cx \<Rightarrow> int \<Rightarrow> byte list"
  hashBytes :: "nat \<Rightarrow> byte list \<Rightarrow> nat \<Rightarrow> HashFunction \<Rightarrow> byte list"
  hashFunction_initForSecurityLevel :: "nat \<Rightarrow> HashFunction"
  validation_isProbablePrime :: "int \<Rightarrow> bool"
  validation_isPublicParametersValid :: "'pt PublicParameters \<Rightarrow> bool"
  validation_isAffinePointValid :: "'pt \<Rightarrow> int \<Rightarrow> bool"
  validation_isCipherTextTupleValid :: "'pt CipherTextTuple \<Rightarrow> int \<Rightarrow> bool"
  random_solinasPrime :: "nat \<Rightarrow> nat \<Rightarrow> 'rs \<Rightarrow> CryptidStatus \<times> int \<times> 'rs"
  random_mpzOfLength :: "nat \<Rightarrow> 'rs \<Rightarrow> int \<times> 'rs"
  random_mpzInRange :: "int \<Rightarrow> 'rs \<Rightarrow> int \<times> 'rs"
  random_affinePoint :: "EllipticCurve \<Rightarrow> nat \<Rightarrow> 'rs \<Rightarrow> CryptidStatus \<times> 'pt \<times> 'rs"
  randomBytes :: "nat \<Rightarrow> 'rs \<Rightarrow> byte list \<times> 'rs"
  ABE_randomNumber :: "('pt, 'cx) PublicKey_ABE \<Rightarrow> 'rs \<Rightarrow> int \<times> 'rs"
  createPolynom :: "int \<Rightarrow> int \<Rightarrow> ('pt, 'cx) PublicKey_ABE \<Rightarrow> 'rs \<Rightarrow> Polynom \<times> 'rs"
  polynomSum :: "Polynom \<Rightarrow> int \<Rightarrow> int"
  isLeaf :: "'pt AccessTree \<Rightarrow> bool"
  satisfyValue :: "'pt AccessTree \<Rightarrow> string list \<Rightarrow> int"
  ATTRIBUTE_LENGTH :: nat

text \<open>The constants at the head of both protocol files.\<close>

definition SOLINAS_GENERATION_ATTEMPT_LIMIT :: nat where
  "SOLINAS_GENERATION_ATTEMPT_LIMIT = 100"

definition POINT_GENERATION_ATTEMPT_LIMIT :: nat where
  "POINT_GENERATION_ATTEMPT_LIMIT = 100"

definition Q_LENGTH_MAPPING :: "nat list" where
  "Q_LENGTH_MAPPING = [160, 224, 256, 384, 512]"

definition P_LENGTH_MAPPING :: "nat list" where
  "P_LENGTH_MAPPING = [512, 1024, 1536, 3840, 7680]"

text \<open>Modelled from the spec: \<^verbatim>\<open>ellipticCurve_init(a, b, p)\<close> builds the curve \<open>E(a,b,p)\<close>;
  its body is in \<^verbatim>\<open>elliptic/EllipticCurve.c\<close>, which is not among the sources.\<close>

definition ellipticCurve_init :: "int \<Rightarrow> int \<Rightarrow> int \<Rightarrow> EllipticCurve" where
  "ellipticCurve_init x y p = \<lparr>ec_a = x, ec_b = y, fieldOrder = p\<rparr>"

section \<open>Attribute-based encryption: encrypt\<close>

text \<open>
  \<^verbatim>\<open>compute_tree\<close> walks the tree and writes \<^verbatim>\<open>Cy\<close> and \<^verbatim>\<open>CyA\<close> into its leaves in place;
  the model returns the tree as it is afterwards. The loop over the children starts at
  index 1, as in the source, and drops the status of the recursive call.
  \<open>compute_tree_children\<close> is that loop from index \<open>i\<close> on, over the entries of the array
  from \<open>i\<close> on.
\<close>

function compute_tree ::
    "('pt, 'cx, 'rs) env \<Rightarrow> 'pt AccessTree \<Rightarrow> int \<Rightarrow> ('pt, 'cx) PublicKey_ABE \<Rightarrow> 'rs
      \<Rightarrow> CryptidStatus \<times> 'pt AccessTree \<times> 'rs"
  and compute_tree_children ::
    "('pt, 'cx, 'rs) env \<Rightarrow> Polynom \<Rightarrow> int \<Rightarrow> 'pt AccessTree option list
      \<Rightarrow> ('pt, 'cx) PublicKey_ABE \<Rightarrow> 'rs \<Rightarrow> 'pt AccessTree option list \<times> 'rs"
where
  "compute_tree E (AccessTree v cs attr attrLen cy cya) s publickey rs =
     (let d = v - 1;
          (qx, rs1) = createPolynom E d s publickey rs
      in if \<not> isLeaf E (AccessTree v cs attr attrLen cy cya) then
           (case cs of
              [] \<Rightarrow> (CRYPTID_SUCCESS, AccessTree v cs attr attrLen cy cya, rs1)
            | c0 # rest \<Rightarrow>
                (let (rest', rs2) = compute_tree_children E qx 1 rest publickey rs1
                 in (CRYPTID_SUCCESS, AccessTree v (c0 # rest') attr attrLen cy cya, rs2)))
         else
           (case AFFINE_MULTIPLY_IMPL E s (pk_g publickey) (pk_ellipticCurve publickey) of
              (status, Cy) \<Rightarrow>
                if status \<noteq> CRYPTID_SUCCESS
                then (status, AccessTree v cs attr attrLen cy cya, rs1)
                else
                  (case hashToPoint E (pk_ellipticCurve publickey)
                          (fieldOrder (pk_ellipticCurve publickey)) (pk_q publickey)
                          attr attrLen (pk_hashFunction publickey) of
                     (status, hashedPoint) \<Rightarrow>
                       if status \<noteq> CRYPTID_SUCCESS
                       then (status, AccessTree v cs attr attrLen cy cya, rs1)
                       else
                         (case AFFINE_MULTIPLY_IMPL E s hashedPoint (pk_ellipticCurve publickey) of
                            (status, CyA) \<Rightarrow>
                              if status \<noteq> CRYPTID_SUCCESS
                              then (status, AccessTree v cs attr attrLen cy cya, rs1)
                              else (CRYPTID_SUCCESS, AccessTree v cs attr attrLen Cy CyA, rs1)))))"
| "compute_tree_children E qx i [] publickey rs = ([], rs)"
| "compute_tree_children E qx i (None # cs) publickey rs =
     (let (cs', rs') = compute_tree_children E qx (i + 1) cs publickey rs
      in (None # cs', rs'))"
| "compute_tree_children E qx i (Some c # cs) publickey rs =
     (let sum = polynomSum E qx i;
          (status, c', rs1) = compute_tree E c sum publickey rs;
          (cs', rs2) = compute_tree_children E qx (i + 1) cs publickey rs1
      in (Some c' # cs', rs2))"
  by pat_completeness auto
termination
  by (relation "measure (\<lambda>x. case x of
          Inl (E, t, s, pk, rs) \<Rightarrow> size t
        | Inr (E, qx, i, cs, pk, rs) \<Rightarrow> size_list (size_option size) cs)") auto

text \<open>
  \<^verbatim>\<open>mpz_import(M, messageLength, 1, sizeof(values[0]), 0, 0, values)\<close>: the words of
  \<^verbatim>\<open>values\<close>, most significant first, each a full 64-bit \<^verbatim>\<open>unsigned long\<close>.
\<close>

definition mpz_import :: "64 word list \<Rightarrow> int" where
  "mpz_import ws = foldl (\<lambda>acc w. acc * 2 ^ 64 + uint w) 0 ws"

text \<open>
  \<^verbatim>\<open>cryptid_encrypt_ABE\<close>. The out-parameter \<^verbatim>\<open>encrypted\<close> and the tree are passed in and
  returned as they are at the return statement. \<^verbatim>\<open>values[i] = (long) message[i]\<close> widens a
  \<^verbatim>\<open>char\<close>, taken as signed, to 64 bits. The buffer \<^verbatim>\<open>message\<close> is taken to hold at least
  \<^verbatim>\<open>messageLength\<close> octets. \<^verbatim>\<open>encrypted->tree = accessTree\<close> stores the pointer to the tree
  that \<^verbatim>\<open>compute_tree\<close> has just written to.
\<close>

definition cryptid_encrypt_ABE ::
    "('pt, 'cx, 'rs) env \<Rightarrow> ('pt, 'cx) EncryptedMessage_ABE \<Rightarrow> byte list option \<Rightarrow> nat
      \<Rightarrow> ('pt, 'cx) PublicKey_ABE option \<Rightarrow> 'pt AccessTree option \<Rightarrow> 'rs
      \<Rightarrow> CryptidStatus \<times> ('pt, 'cx) EncryptedMessage_ABE \<times> 'pt AccessTree option \<times> 'rs"
where
  "cryptid_encrypt_ABE E encrypted message messageLength publickey accessTree rs =
     (case message of
        None \<Rightarrow> (CRYPTID_MESSAGE_NULL_ERROR, encrypted, accessTree, rs)
      | Some msg \<Rightarrow>
          if messageLength = 0
          then (CRYPTID_MESSAGE_LENGTH_ERROR, encrypted, accessTree, rs)
          else
            (case publickey of
               None \<Rightarrow> (CRYPTID_MESSAGE_NULL_ERROR, encrypted, accessTree, rs)
             | Some pk \<Rightarrow>
                 (case accessTree of
                    None \<Rightarrow> (CRYPTID_MESSAGE_NULL_ERROR, encrypted, accessTree, rs)
                  | Some tree \<Rightarrow>
                      (let pMinusOne = fieldOrder (pk_ellipticCurve pk) - 1;
                           values = map (\<lambda>c. (scast c :: 64 word)) (take messageLength msg);
                           M = mpz_import values;
                           (s, rs1) = random_mpzInRange E pMinusOne rs;
                           (treeStatus, tree', rs2) = compute_tree E tree s pk rs1;
                           eggalphas = complex_modPow E (pk_eggalpha pk) s
                                         (fieldOrder (pk_ellipticCurve pk));
                           Ctilde = complex_modMulScalar E eggalphas M
                                      (fieldOrder (pk_ellipticCurve pk));
                           encrypted1 = encrypted\<lparr>em_tree := tree', em_Ctilde := Ctilde\<rparr>
                       in case AFFINE_MULTIPLY_IMPL E s (pk_h pk) (pk_ellipticCurve pk) of
                            (status, C) \<Rightarrow>
                              if status \<noteq> CRYPTID_SUCCESS
                              then (status, encrypted1, Some tree', rs2)
                              else (CRYPTID_SUCCESS, encrypted1\<lparr>em_C := C\<rparr>, Some tree', rs2)))))"

section \<open>Lagrange coefficient\<close>

text \<open>
  \<^verbatim>\<open>Lagrange_coefficient(xi, S, sLength, x)\<close> over C \<^verbatim>\<open>int\<close>s: the loop runs over the first
  \<^verbatim>\<open>sLength\<close> entries of \<^verbatim>\<open>S\<close>, and \<^verbatim>\<open>/\<close> is C's division, which truncates towards zero
  (\<open>sdiv\<close>). The test \<^verbatim>\<open>&S[i] != NULL\<close> is always true. An \<^verbatim>\<open>int\<close> has 32 bits: \<open>c_int v\<close> is
  what an \<^verbatim>\<open>int\<close> holds once the value \<open>v\<close> of a difference, a quotient or a product has been
  stored in it, \<open>v\<close> wrapped around modulo \<open>2\<^sup>3\<^sup>2\<close> into the range from \<open>-2\<^sup>3\<^sup>1\<close> to
  \<open>2\<^sup>3\<^sup>1 - 1\<close>. (C leaves the overflow of an \<^verbatim>\<open>int\<close> undefined; the wrap-around is what
  the compiled multiplication and subtraction do.)
\<close>

definition c_int :: "int \<Rightarrow> int" where
  "c_int v = (v + 2 ^ 31) mod 2 ^ 32 - 2 ^ 31"

fun Lagrange_loop :: "int \<Rightarrow> int list \<Rightarrow> int \<Rightarrow> int \<Rightarrow> int" where
  "Lagrange_loop xi [] x result = result"
| "Lagrange_loop xi (Si # S) x result =
     Lagrange_loop xi S x
       (if Si \<noteq> xi then c_int (result * c_int (c_int (x - Si) sdiv c_int (xi - Si)))
        else result)"

definition Lagrange_coefficient :: "int \<Rightarrow> int list \<Rightarrow> nat \<Rightarrow> int \<Rightarrow> int" where
  "Lagrange_coefficient xi S sLength x = Lagrange_loop xi (take sLength S) x 1"


section \<open>Attribute-based encryption: key generation\<close>

text \<open>
  \<^verbatim>\<open>cryptid_keygen_ABE\<close>. The secret key is passed in and returned as it is at the return
  statement. \<open>keygen_attributes\<close> is the loop over \<^verbatim>\<open>attributes[i]\<close> from index \<open>i\<close> on; the
  inner loop counts the characters of the attribute up to \<^verbatim>\<open>ATTRIBUTE_LENGTH\<close>.
  \<^verbatim>\<open>Gar\<close> is computed by a multiplication of \<^verbatim>\<open>g_alpha\<close> by \<open>r\<close>; the addition
  \<^verbatim>\<open>affine_add(&Gar, masterkey->g_alpha, Gr, ...)\<close> is commented out in the source.
\<close>

fun keygen_attributes ::
    "('pt, 'cx, 'rs) env \<Rightarrow> ('pt, 'cx) MasterKey_ABE \<Rightarrow> 'pt \<Rightarrow> string list \<Rightarrow> nat
      \<Rightarrow> ('pt, 'cx) SecretKey_ABE \<Rightarrow> 'rs \<Rightarrow> CryptidStatus \<times> ('pt, 'cx) SecretKey_ABE \<times> 'rs"
where
  "keygen_attributes E masterkey Gr [] i secretkey rs = (CRYPTID_SUCCESS, secretkey, rs)"
| "keygen_attributes E masterkey Gr (attr # attrs) i secretkey rs =
     (if attr \<noteq> [] then
        (let publickey = mk_pubkey masterkey;
             attributeLength = int (min (length attr) (ATTRIBUTE_LENGTH E));
             (rj, rs1) = ABE_randomNumber E publickey rs
         in case hashToPoint E (pk_ellipticCurve publickey)
                   (fieldOrder (pk_ellipticCurve publickey)) (pk_q publickey)
                   attr attributeLength (pk_hashFunction publickey) of
              (status, Hj) \<Rightarrow>
                if status \<noteq> CRYPTID_SUCCESS then (status, secretkey, rs1)
                else
                  (case AFFINE_MULTIPLY_IMPL E rj Hj (pk_ellipticCurve publickey) of
                     (status, HjRj) \<Rightarrow>
                       if status \<noteq> CRYPTID_SUCCESS then (status, secretkey, rs1)
                       else
                         (let Dj = affine_add E HjRj Gr (pk_ellipticCurve publickey);
                              secretkey1 = secretkey\<lparr>sk_Dj := (sk_Dj secretkey)[i := Dj]\<rparr>
                          in case AFFINE_MULTIPLY_IMPL E rj (pk_g publickey)
                                    (pk_ellipticCurve publickey) of
                               (status, DjA) \<Rightarrow>
                                 if status \<noteq> CRYPTID_SUCCESS then (status, secretkey1, rs1)
                                 else
                                   keygen_attributes E masterkey Gr attrs (i + 1)
                                     (secretkey1\<lparr>sk_DjA := (sk_DjA secretkey1)[i := DjA],
                                        sk_attributes := (sk_attributes secretkey1)[i := attr],
                                        sk_pubkey := mk_pubkey masterkey\<rparr>) rs1)))
      else keygen_attributes E masterkey Gr attrs (i + 1) secretkey rs)"

definition cryptid_keygen_ABE ::
    "('pt, 'cx, 'rs) env \<Rightarrow> ('pt, 'cx) MasterKey_ABE \<Rightarrow> string list
      \<Rightarrow> ('pt, 'cx) SecretKey_ABE \<Rightarrow> 'rs \<Rightarrow> CryptidStatus \<times> ('pt, 'cx) SecretKey_ABE \<times> 'rs"
where
  "cryptid_keygen_ABE E masterkey attributes secretkey rs =
     (let publickey = mk_pubkey masterkey;
          (r, rs1) = ABE_randomNumber E publickey rs
      in case AFFINE_MULTIPLY_IMPL E r (pk_g publickey) (pk_ellipticCurve publickey) of
           (status, Gr) \<Rightarrow>
             if status \<noteq> CRYPTID_SUCCESS then (status, secretkey, rs1)
             else
               (case AFFINE_MULTIPLY_IMPL E r (mk_g_alpha masterkey) (pk_ellipticCurve publickey) of
                  (status, Gar) \<Rightarrow>
                    if status \<noteq> CRYPTID_SUCCESS then (status, secretkey, rs1)
                    else
                      (let beta_inverse = mpz_invert E (mk_beta masterkey)
                                            (fieldOrder (pk_ellipticCurve publickey))
                       in case AFFINE_MULTIPLY_IMPL E beta_inverse Gar (pk_ellipticCurve publickey) of
                            (status, GarBi) \<Rightarrow>
                              if status \<noteq> CRYPTID_SUCCESS then (status, secretkey, rs1)
                              else keygen_attributes E masterkey Gr attributes 0
                                     (secretkey\<lparr>sk_D := GarBi\<rparr>) rs1)))"

section \<open>Attribute-based encryption: decrypt\<close>

text \<open>
  The search of the leaf branch of \<^verbatim>\<open>DecryptNode_ABE\<close>: the first index, from \<open>i\<close> on, of a
  non-empty attribute of the key that equals the attribute of the node, or \<open>-1\<close>.
\<close>

fun find_attribute :: "string list \<Rightarrow> string \<Rightarrow> nat \<Rightarrow> int" where
  "find_attribute [] attr i = - 1"
| "find_attribute (x # xs) attr i =
     (if x \<noteq> [] \<and> x = attr then int i else find_attribute xs attr (i + 1))"

text \<open>
  The local arrays of the branch of an inner node. \<^verbatim>\<open>Complex* Sx[MAX_CHILDREN]\<close> is not
  initialised; a slot of it is \<open>None\<close> as long as nothing has been stored in it (the test
  \<^verbatim>\<open>Sx[i] != NULL\<close> is taken to find \<^verbatim>\<open>NULL\<close> there) and \<open>Some F\<close> once \<^verbatim>\<open>Sx[i] = &F\<close> has been
  executed, \<open>F\<close> being the \<^verbatim>\<open>Complex\<close> the call on the child has left (\<open>None\<close> if the call has
  not written it). \<open>read_array a i\<close> is the read \<^verbatim>\<open>a[i]\<close>: \<open>None\<close> where \<open>i\<close> is not an index of
  the array, a read the C language gives no meaning to.

  \<open>stored_indexes Sx\<close> is what the second loop writes into \<^verbatim>\<open>indexes\<close>, the indexes of
  the slots of \<^verbatim>\<open>Sx\<close> that are not \<^verbatim>\<open>NULL\<close> in ascending order; the counter \<open>c\<close> of that loop
  ends as the number of these indexes.

  \<open>DecryptNode_Fx\<close> is the third loop, over the rounds \<open>i = 0, ..., num - 1\<close> still to
  run, with \<^verbatim>\<open>Fx\<close> as it is before the round. A round computes
  \<^verbatim>\<open>Lagrange_coefficient(i, indexes, num, 0)\<close>, converts it to the \<^verbatim>\<open>unsigned long\<close> that
  \<^verbatim>\<open>mpz_init_set_ui\<close> takes (64 bits), reads \<^verbatim>\<open>indexes[c]\<close>, then the slot \<^verbatim>\<open>Sx[indexes[c]]\<close>, then
  the \<^verbatim>\<open>Complex\<close> that slot points to, and multiplies \<^verbatim>\<open>Fx\<close> by the power. The result is
  \<open>None\<close> when one of the three reads has no meaning: an index outside the array, a slot
  in which nothing was stored, a \<^verbatim>\<open>Complex\<close> that was never written.
\<close>

definition read_array :: "'a list \<Rightarrow> int \<Rightarrow> 'a option" where
  "read_array a i = (if 0 \<le> i \<and> nat i < length a then Some (a ! nat i) else None)"

definition stored_indexes :: "'cx option option list \<Rightarrow> int list" where
  "stored_indexes Sx = map int (filter (\<lambda>i. Sx ! i \<noteq> None) [0..<length Sx])"

fun DecryptNode_Fx ::
    "('pt, 'cx, 'rs) env \<Rightarrow> int \<Rightarrow> 'cx option option list \<Rightarrow> int list \<Rightarrow> nat \<Rightarrow> nat
      \<Rightarrow> nat list \<Rightarrow> 'cx \<Rightarrow> 'cx option"
where
  "DecryptNode_Fx E p Sx indexes c num [] Fx = Some Fx"
| "DecryptNode_Fx E p Sx indexes c num (i # rounds) Fx =
     (let result = Lagrange_coefficient (int i) indexes num 0;
          resultMpz = result mod 2 ^ 64
      in case read_array indexes (int c) of
           None \<Rightarrow> None
         | Some j \<Rightarrow>
             (case read_array Sx j of
                None \<Rightarrow> None
              | Some None \<Rightarrow> None
              | Some (Some None) \<Rightarrow> None
              | Some (Some (Some F)) \<Rightarrow>
                  DecryptNode_Fx E p Sx indexes c num rounds
                    (complex_modMul E Fx (complex_modPow E F resultMpz p) p)))"

text \<open>
  \<^verbatim>\<open>DecryptNode_ABE\<close>. The out-parameters \<^verbatim>\<open>result\<close> and \<^verbatim>\<open>statusCode\<close> are passed in as
  what they point to at the call; a \<^verbatim>\<open>Complex\<close> that has not been initialised is \<open>None\<close>.
  The function returns \<open>(Some status, result, statusCode)\<close>, the status returned and what
  the out-parameters point to at the return statement, when the call reaches a return
  statement. It returns \<open>(None, result, statusCode)\<close> when the call makes a read that has
  no meaning (see \<open>DecryptNode_Fx\<close>) before it reaches one: then no status is returned,
  the behaviour of the program is undefined from that read on, and the other two
  components are what the out-parameters point to when the read is made.

  In the branch of an inner node, \<open>DecryptNode_children\<close> is the first loop: it calls
  the function on every child that is not \<^verbatim>\<open>NULL\<close> with a fresh \<^verbatim>\<open>F\<close> and \<^verbatim>\<open>code = 0\<close>,
  drops the status the call returns, and stores \<^verbatim>\<open>&F\<close> in the slot of the child when the
  call has left \<^verbatim>\<open>code == 1\<close>; it gives the array \<^verbatim>\<open>Sx\<close> after the loop, or \<open>None\<close> when one of
  the calls does not return. \<^verbatim>\<open>num\<close> counts the slots stored. The block under
  \<^verbatim>\<open>if(num > 0)\<close> fills \<^verbatim>\<open>indexes\<close>, an array of \<^verbatim>\<open>num\<close> cells, runs the loop \<open>DecryptNode_Fx\<close> from
  \<^verbatim>\<open>Fx = complex_initLong(1, 0)\<close>, and ends with \<^verbatim>\<open>result = &Fx\<close>, which changes the parameter
  variable and not the caller's \<^verbatim>\<open>Complex\<close>, and \<^verbatim>\<open>*statusCode = 1\<close>. The node's threshold
  \<^verbatim>\<open>node->value\<close> is not read.
\<close>

function DecryptNode_ABE ::
    "('pt, 'cx, 'rs) env \<Rightarrow> ('pt, 'cx) EncryptedMessage_ABE \<Rightarrow> ('pt, 'cx) SecretKey_ABE
      \<Rightarrow> 'pt AccessTree \<Rightarrow> 'cx option \<Rightarrow> int \<Rightarrow> CryptidStatus option \<times> 'cx option \<times> int"
  and DecryptNode_children ::
    "('pt, 'cx, 'rs) env \<Rightarrow> ('pt, 'cx) EncryptedMessage_ABE \<Rightarrow> ('pt, 'cx) SecretKey_ABE
      \<Rightarrow> 'pt AccessTree option list \<Rightarrow> 'cx option option list option"
where
  "DecryptNode_ABE E encrypted secretkey (AccessTree v cs attr attrLen cy cya) result statusCode =
     (if isLeaf E (AccessTree v cs attr attrLen cy cya) then
        (let found = find_attribute (sk_attributes secretkey) attr 0
         in if found \<ge> 0 then
              (case tate_performPairing E 2 (pk_ellipticCurve (sk_pubkey secretkey))
                      (pk_q (sk_pubkey secretkey)) (sk_Dj secretkey ! nat found) cy of
                 (status, pairValue) \<Rightarrow>
                   if status \<noteq> CRYPTID_SUCCESS then (Some status, result, statusCode)
                   else
                     (case tate_performPairing E 2 (pk_ellipticCurve (sk_pubkey secretkey))
                             (pk_q (sk_pubkey secretkey)) (sk_DjA secretkey ! nat found) cya of
                        (status, pairValueA) \<Rightarrow>
                          if status \<noteq> CRYPTID_SUCCESS then (Some status, result, statusCode)
                          else
                            (case complex_multiplicativeInverse E pairValueA
                                    (fieldOrder (pk_ellipticCurve (sk_pubkey secretkey))) of
                               (status, pairValueA_inverse) \<Rightarrow>
                                 if status \<noteq> CRYPTID_SUCCESS
                                 then (Some status, result, statusCode)
                                 else
                                   (Some CRYPTID_SUCCESS,
                                    Some (complex_modMul E pairValue pairValueA_inverse
                                            (fieldOrder (pk_ellipticCurve (sk_pubkey secretkey)))),
                                    1))))
            else (Some CRYPTID_SUCCESS, result, statusCode))
      else
        (case DecryptNode_children E encrypted secretkey cs of
           None \<Rightarrow> (None, result, statusCode)
         | Some Sx \<Rightarrow>
             (let num = length (filter (\<lambda>slot. slot \<noteq> None) Sx)
              in if num > 0 then
                   (let indexes = stored_indexes Sx;
                        c = length indexes
                    in case DecryptNode_Fx E
                              (fieldOrder (pk_ellipticCurve (sk_pubkey secretkey)))
                              Sx indexes c num [0..<num] (complex_initLong E 1 0) of
                         None \<Rightarrow> (None, result, statusCode)
                       | Some Fx \<Rightarrow> (Some CRYPTID_SUCCESS, result, 1))
                 else (Some CRYPTID_SUCCESS, result, statusCode))))"
| "DecryptNode_children E encrypted secretkey [] = Some []"
| "DecryptNode_children E encrypted secretkey (None # cs) =
     map_option (\<lambda>Sx. None # Sx) (DecryptNode_children E encrypted secretkey cs)"
| "DecryptNode_children E encrypted secretkey (Some child # cs) =
     (case DecryptNode_ABE E encrypted secretkey child None 0 of
        (None, F, code) \<Rightarrow> None
      | (Some status, F, code) \<Rightarrow>
          map_option (\<lambda>Sx. (if code = 1 then Some F else None) # Sx)
            (DecryptNode_children E encrypted secretkey cs))"
  by pat_completeness auto
termination
  by (relation "measure (\<lambda>x. case x of
          Inl (E, enc, sk, t, res, code) \<Rightarrow> size t
        | Inr (E, enc, sk, cs) \<Rightarrow> size_list (size_option size) cs)") auto

text \<open>
  \<^verbatim>\<open>cryptid_decrypt_ABE\<close>. \<open>result\<close> is the content of the caller's buffer \<^verbatim>\<open>char *result\<close>;
  the function returns its status, the buffer as it is at the return statement, and the
  value \<^verbatim>\<open>decrypted\<close> that the last two \<^verbatim>\<open>gmp_printf\<close> calls print (\<open>None\<close> where nothing is
  printed, or where the value printed was computed from a \<^verbatim>\<open>Complex\<close> that was never
  written). As for \<^verbatim>\<open>DecryptNode_ABE\<close>, the status is \<open>None\<close> when the call on the root
  of the tree does not return, and the buffer is then as it is at that point.
\<close>

definition cryptid_decrypt_ABE ::
    "('pt, 'cx, 'rs) env \<Rightarrow> byte list \<Rightarrow> ('pt, 'cx) EncryptedMessage_ABE
      \<Rightarrow> ('pt, 'cx) SecretKey_ABE \<Rightarrow> CryptidStatus option \<times> byte list \<times> 'cx option"
where
  "cryptid_decrypt_ABE E result encrypted secretkey =
     (let satisfy = satisfyValue E (em_tree encrypted) (sk_attributes secretkey)
      in if satisfy = 0 then (Some CRYPTID_ILLEGAL_PRIVATE_KEY_ERROR, result, None)
         else
           (case DecryptNode_ABE E encrypted secretkey (em_tree encrypted) None 0 of
              (None, A, code) \<Rightarrow> (None, result, None)
            | (Some nodeStatus, A, code) \<Rightarrow>
                if code = 0 then (Some CRYPTID_ILLEGAL_PRIVATE_KEY_ERROR, result, None)
                else
                  (let p = fieldOrder (pk_ellipticCurve (sk_pubkey secretkey));
                       Ctilde_A = map_option (\<lambda>A'. complex_modMul E (em_Ctilde encrypted) A' p) A
                   in case tate_performPairing E 2 (pk_ellipticCurve (sk_pubkey secretkey))
                             (pk_q (sk_pubkey secretkey)) (em_C encrypted) (sk_D secretkey) of
                        (status, eCD) \<Rightarrow>
                          if status \<noteq> CRYPTID_SUCCESS then (Some status, result, None)
                          else
                            (case complex_multiplicativeInverse E eCD p of
                               (status, eCD_inverse) \<Rightarrow>
                                 if status \<noteq> CRYPTID_SUCCESS then (Some status, result, None)
                                 else
                                   (let decrypted =
                                          map_option (\<lambda>x. complex_modMul E x eCD_inverse p) Ctilde_A
                                    in (Some CRYPTID_SUCCESS, result, decrypted))))))"


section \<open>Setup\<close>

text \<open>
  The two \<^verbatim>\<open>do ... while\<close> loops that \<^verbatim>\<open>cryptid_setup\<close> and \<^verbatim>\<open>cryptid_setup_ABE\<close> share word
  for word. Neither has a counter, so each is a partial function: \<open>None\<close> is the loop
  that never ends.

  \<open>setup_find_p\<close> draws \<open>r\<close> until \<open>p = 12 r q - 1\<close> passes the primality test and returns
  \<open>r\<close>, \<open>p\<close> and the state of the random source. \<open>setup_find_pointP\<close> draws a point and
  multiplies it by \<open>12 r\<close> until the product is not the point at infinity; it leaves
  early with the status of \<^verbatim>\<open>random_affinePoint\<close> or of the multiplication when one of them
  fails. Its first argument is the multiplication the file uses
  (\<^verbatim>\<open>affine_wNAFMultiply\<close> or \<^verbatim>\<open>AFFINE_MULTIPLY_IMPL\<close>).
\<close>

partial_function (option) setup_find_p ::
    "('pt, 'cx, 'rs) env \<Rightarrow> nat \<Rightarrow> int \<Rightarrow> 'rs \<Rightarrow> (int \<times> int \<times> 'rs) option"
where
  "setup_find_p E lengthOfR q rs =
     (let r = fst (random_mpzOfLength E lengthOfR rs);
          rs' = snd (random_mpzOfLength E lengthOfR rs);
          p = r * 12 * q - 1
      in if \<not> validation_isProbablePrime E p then setup_find_p E lengthOfR q rs'
         else Some (r, p, rs'))"

partial_function (option) setup_find_pointP ::
    "(int \<Rightarrow> 'pt \<Rightarrow> EllipticCurve \<Rightarrow> CryptidStatus \<times> 'pt) \<Rightarrow> ('pt, 'cx, 'rs) env
      \<Rightarrow> EllipticCurve \<Rightarrow> int \<Rightarrow> 'rs \<Rightarrow> (CryptidStatus \<times> 'pt option \<times> 'rs) option"
where
  "setup_find_pointP multiply E ec r rs =
     (let status = fst (random_affinePoint E ec POINT_GENERATION_ATTEMPT_LIMIT rs);
          pointPprime = fst (snd (random_affinePoint E ec POINT_GENERATION_ATTEMPT_LIMIT rs));
          rs' = snd (snd (random_affinePoint E ec POINT_GENERATION_ATTEMPT_LIMIT rs))
      in if status \<noteq> CRYPTID_SUCCESS then Some (status, None, rs')
         else
           (let rMul = r * 12;
                status = fst (multiply rMul pointPprime ec);
                pointP = snd (multiply rMul pointPprime ec)
            in if status \<noteq> CRYPTID_SUCCESS then Some (status, None, rs')
               else if affine_isInfinity E pointP then setup_find_pointP multiply E ec r rs'
               else Some (CRYPTID_SUCCESS, Some pointP, rs')))"

declare setup_find_p.simps [code]
declare setup_find_pointP.simps [code]

text \<open>
  \<^verbatim>\<open>cryptid_setup_ABE\<close>. The security level is the index into the two length tables
  (0 to 4). The out-parameters \<^verbatim>\<open>publickey\<close> and \<^verbatim>\<open>masterkey\<close> are passed in and returned
  as they are at the return statement; \<open>None\<close> is the call that never returns.
  \<^verbatim>\<open>masterkey->pubkey = publickey\<close> stores the pointer to the public key, whose content at
  the return statement is the one returned.
\<close>

definition cryptid_setup_ABE ::
    "('pt, 'cx, 'rs) env \<Rightarrow> nat \<Rightarrow> ('pt, 'cx) PublicKey_ABE \<Rightarrow> ('pt, 'cx) MasterKey_ABE \<Rightarrow> 'rs
      \<Rightarrow> (CryptidStatus \<times> ('pt, 'cx) PublicKey_ABE \<times> ('pt, 'cx) MasterKey_ABE \<times> 'rs) option"
where
  "cryptid_setup_ABE E securityLevel publickey masterkey rs =
     (case random_solinasPrime E (Q_LENGTH_MAPPING ! securityLevel)
             SOLINAS_GENERATION_ATTEMPT_LIMIT rs of
        (status, q, rs1) \<Rightarrow>
          if status \<noteq> CRYPTID_SUCCESS then Some (status, publickey, masterkey, rs1)
          else
            (let lengthOfR = P_LENGTH_MAPPING ! securityLevel - Q_LENGTH_MAPPING ! securityLevel - 3
             in case setup_find_p E lengthOfR q rs1 of
                  None \<Rightarrow> None
                | Some (r, p, rs2) \<Rightarrow>
                    (let ec = ellipticCurve_init 0 1 p
                     in case setup_find_pointP (AFFINE_MULTIPLY_IMPL E) E ec r rs2 of
                          None \<Rightarrow> None
                        | Some (status, None, rs3) \<Rightarrow> Some (status, publickey, masterkey, rs3)
                        | Some (status, Some pointP, rs3) \<Rightarrow>
                            (let pMinusOne = p - 1;
                                 (alpha, rs4) = random_mpzInRange E pMinusOne rs3;
                                 (beta, rs5) = random_mpzInRange E pMinusOne rs4;
                                 publickey1 = publickey\<lparr>pk_ellipticCurve := ec, pk_g := pointP\<rparr>
                             in case AFFINE_MULTIPLY_IMPL E beta (pk_g publickey1)
                                       (pk_ellipticCurve publickey1) of
                                  (status, h) \<Rightarrow>
                                    if status \<noteq> CRYPTID_SUCCESS
                                    then Some (status, publickey1, masterkey, rs5)
                                    else
                                      (let publickey2 = publickey1\<lparr>pk_h := h\<rparr>;
                                           beta_inverse = mpz_invert E beta
                                             (fieldOrder (pk_ellipticCurve publickey2))
                                       in case AFFINE_MULTIPLY_IMPL E beta_inverse (pk_g publickey2)
                                                 (pk_ellipticCurve publickey2) of
                                            (status, f) \<Rightarrow>
                                              if status \<noteq> CRYPTID_SUCCESS
                                              then Some (status, publickey2, masterkey, rs5)
                                              else
                                                (let publickey3 = publickey2\<lparr>pk_f := f\<rparr>;
                                                     masterkey1 = masterkey\<lparr>mk_beta := beta\<rparr>
                                                 in case AFFINE_MULTIPLY_IMPL E alpha (pk_g publickey3)
                                                           (pk_ellipticCurve publickey3) of
                                                      (status, g_alpha) \<Rightarrow>
                                                        if status \<noteq> CRYPTID_SUCCESS
                                                        then Some (status, publickey3, masterkey1, rs5)
                                                        else
                                                          (let masterkey2 = masterkey1\<lparr>mk_g_alpha := g_alpha\<rparr>;
                                                               publickey4 = publickey3
                                                                 \<lparr>pk_q := q,
                                                                  pk_hashFunction :=
                                                                    hashFunction_initForSecurityLevel E securityLevel\<rparr>
                                                           in case tate_performPairing E 2 ec q pointP pointP of
                                                                (status, pairValue) \<Rightarrow>
                                                                  if status \<noteq> CRYPTID_SUCCESS
                                                                  then Some (status, publickey4, masterkey2, rs5)
                                                                  else
                                                                    (let eggalpha = complex_modPow E pairValue alpha
                                                                           (fieldOrder (pk_ellipticCurve publickey4));
                                                                         publickey5 = publickey4\<lparr>pk_eggalpha := eggalpha\<rparr>
                                                                     in Some (CRYPTID_SUCCESS, publickey5,
                                                                              masterkey2\<lparr>mk_pubkey := publickey5\<rparr>,
                                                                              rs5)))))))))"

text \<open>
  \<^verbatim>\<open>cryptid_setup\<close> of the Boneh-Franklin file: the same two loops, then the master
  secret and the public parameters, which are written only after the last step that
  can fail. \<open>publicParameters\<close> is the pointer (\<open>None\<close> for \<^verbatim>\<open>NULL\<close>) with what it points to.
\<close>

definition cryptid_setup ::
    "('pt, 'cx, 'rs) env \<Rightarrow> nat \<Rightarrow> 'pt PublicParameters option \<Rightarrow> int \<Rightarrow> 'rs
      \<Rightarrow> (Status \<times> 'pt PublicParameters option \<times> int \<times> 'rs) option"
where
  "cryptid_setup E securityLevel publicParameters masterSecret rs =
     (case publicParameters of
        None \<Rightarrow> Some (PUBLIC_PARAMETERS_NULL_ERROR, publicParameters, masterSecret, rs)
      | Some pp \<Rightarrow>
          (case random_solinasPrime E (Q_LENGTH_MAPPING ! securityLevel)
                  SOLINAS_GENERATION_ATTEMPT_LIMIT rs of
             (status, q, rs1) \<Rightarrow>
               if status \<noteq> SUCCESS then Some (status, publicParameters, masterSecret, rs1)
               else
                 (let lengthOfR =
                        P_LENGTH_MAPPING ! securityLevel - Q_LENGTH_MAPPING ! securityLevel - 3
                  in case setup_find_p E lengthOfR q rs1 of
                       None \<Rightarrow> None
                     | Some (r, p, rs2) \<Rightarrow>
                         (let ec = ellipticCurve_init 0 1 p
                          in case setup_find_pointP (affine_wNAFMultiply E) E ec r rs2 of
                               None \<Rightarrow> None
                             | Some (status, None, rs3) \<Rightarrow>
                                 Some (status, publicParameters, masterSecret, rs3)
                             | Some (status, Some pointP, rs3) \<Rightarrow>
                                 (let qMinusTwo = q - 2;
                                      (s0, rs4) = random_mpzInRange E qMinusTwo rs3;
                                      s = s0 + 2
                                  in case affine_wNAFMultiply E s pointP ec of
                                       (status, pointPpublic) \<Rightarrow>
                                         if status \<noteq> SUCCESS
                                         then Some (status, publicParameters, masterSecret, rs4)
                                         else
                                           Some (SUCCESS,
                                                 Some (pp\<lparr>pp_ellipticCurve := ec, pp_q := q,
                                                          pp_pointP := pointP,
                                                          pp_pointPpublic := pointPpublic,
                                                          pp_hashFunction :=
                                                            hashFunction_initForSecurityLevel E securityLevel\<rparr>),
                                                 s, rs4))))))"

text \<open>
  When the two searches end. \<open>p_search_state E lengthOfR rs n\<close> is the state of the random
  source after \<open>n\<close> draws of \<open>r\<close>, and \<open>p_search_hit\<close> says that the draw made in a state gives
  a \<open>p\<close> that passes the primality test. \<open>pointP_search_state\<close> is the state of the random
  source after \<open>n\<close> draws of a point, and \<open>pointP_search_continues\<close> says that the draw made
  in a state sends the second loop round again: the point was generated, the
  multiplication succeeded and the product is the point at infinity.
\<close>

definition p_search_state :: "('pt, 'cx, 'rs) env \<Rightarrow> nat \<Rightarrow> 'rs \<Rightarrow> nat \<Rightarrow> 'rs" where
  "p_search_state E lengthOfR rs n = ((\<lambda>s. snd (random_mpzOfLength E lengthOfR s)) ^^ n) rs"

definition p_search_hit :: "('pt, 'cx, 'rs) env \<Rightarrow> nat \<Rightarrow> int \<Rightarrow> 'rs \<Rightarrow> bool" where
  "p_search_hit E lengthOfR q s =
     validation_isProbablePrime E (fst (random_mpzOfLength E lengthOfR s) * 12 * q - 1)"

definition pointP_search_state :: "('pt, 'cx, 'rs) env \<Rightarrow> EllipticCurve \<Rightarrow> 'rs \<Rightarrow> nat \<Rightarrow> 'rs" where
  "pointP_search_state E ec rs n =
     ((\<lambda>s. snd (snd (random_affinePoint E ec POINT_GENERATION_ATTEMPT_LIMIT s))) ^^ n) rs"

definition pointP_search_continues ::
    "(int \<Rightarrow> 'pt \<Rightarrow> EllipticCurve \<Rightarrow> CryptidStatus \<times> 'pt) \<Rightarrow> ('pt, 'cx, 'rs) env
      \<Rightarrow> EllipticCurve \<Rightarrow> int \<Rightarrow> 'rs \<Rightarrow> bool"
where
  "pointP_search_continues multiply E ec r s =
     (fst (random_affinePoint E ec POINT_GENERATION_ATTEMPT_LIMIT s) = CRYPTID_SUCCESS
      \<and> fst (multiply (r * 12)
               (fst (snd (random_affinePoint E ec POINT_GENERATION_ATTEMPT_LIMIT s))) ec)
          = CRYPTID_SUCCESS
      \<and> affine_isInfinity E
          (snd (multiply (r * 12)
                  (fst (snd (random_affinePoint E ec POINT_GENERATION_ATTEMPT_LIMIT s))) ec)))"

section \<open>Identity-based encryption\<close>

text \<open>
  Buffers. \<open>octets n buf\<close> is what a loop \<^verbatim>\<open>for (i = 0; i < n; i++)\<close> reads from \<^verbatim>\<open>buf[i]\<close>,
  and \<open>xor_octets n a b\<close> is the buffer such a loop fills with \<^verbatim>\<open>a[i] ^ b[i]\<close>. Where a
  buffer holds at least \<open>n\<close> octets these are its first \<open>n\<close> octets; a read past the end
  of a buffer has no defined value in C and none here.
\<close>

definition octets :: "nat \<Rightarrow> byte list \<Rightarrow> byte list" where
  "octets n buf = map (\<lambda>i. buf ! i) [0..<n]"

definition xor_octets :: "nat \<Rightarrow> byte list \<Rightarrow> byte list \<Rightarrow> byte list" where
  "xor_octets n a b = map (\<lambda>i. (a ! i) XOR (b ! i)) [0..<n]"

text \<open>
  \<^verbatim>\<open>cryptid_extract\<close>. \<open>result\<close> is the pointer (\<open>None\<close> for \<^verbatim>\<open>NULL\<close>) with what it points to.
\<close>

definition cryptid_extract ::
    "('pt, 'cx, 'rs) env \<Rightarrow> 'pt option \<Rightarrow> string \<Rightarrow> nat \<Rightarrow> 'pt PublicParameters \<Rightarrow> int
      \<Rightarrow> Status \<times> 'pt option"
where
  "cryptid_extract E result identity identityLength publicParameters masterSecret =
     (if result = None then (RESULT_POINTER_NULL_ERROR, result)
      else if identityLength = 0 then (IDENTITY_LENGTH_ERROR, result)
      else if \<not> validation_isPublicParametersValid E publicParameters
      then (ILLEGAL_PUBLIC_PARAMETERS_ERROR, result)
      else
        (case hashToPoint E (pp_ellipticCurve publicParameters)
                (fieldOrder (pp_ellipticCurve publicParameters)) (pp_q publicParameters)
                identity (int identityLength) (pp_hashFunction publicParameters) of
           (status, qId) \<Rightarrow>
             if status \<noteq> SUCCESS then (status, result)
             else
               (case affine_wNAFMultiply E masterSecret qId (pp_ellipticCurve publicParameters) of
                  (status, key) \<Rightarrow>
                    if status \<noteq> SUCCESS then (status, result) else (status, Some key))))"

text \<open>
  \<^verbatim>\<open>cryptid_encrypt\<close>. \<open>message\<close> and \<open>identity\<close> are the pointers with the buffers they point
  to; the message buffer is taken to hold at least \<^verbatim>\<open>messageLength\<close> octets. \<open>result\<close> is
  what \<^verbatim>\<open>*result\<close> holds. \<^verbatim>\<open>t\<close> is the hash of the message, \<^verbatim>\<open>concat\<close> is \<open>rho\<close> followed by
  \<^verbatim>\<open>t\<close>, \<^verbatim>\<open>hashLen\<close> octets of each, and \<open>l\<close> is \<^verbatim>\<open>hashToRange(concat, 2 * hashLen, q)\<close>.
  \<^verbatim>\<open>cipherTextTuple_init\<close> copies its arguments into the tuple.
\<close>

definition cryptid_encrypt ::
    "('pt, 'cx, 'rs) env \<Rightarrow> 'pt CipherTextTuple option \<Rightarrow> byte list option \<Rightarrow> nat
      \<Rightarrow> string option \<Rightarrow> nat \<Rightarrow> 'pt PublicParameters \<Rightarrow> 'rs
      \<Rightarrow> Status \<times> 'pt CipherTextTuple option \<times> 'rs"
where
  "cryptid_encrypt E result message messageLength identity identityLength publicParameters rs =
     (case message of
        None \<Rightarrow> (MESSAGE_NULL_ERROR, result, rs)
      | Some msg \<Rightarrow>
          if messageLength = 0 then (MESSAGE_LENGTH_ERROR, result, rs)
          else
            (case identity of
               None \<Rightarrow> (IDENTITY_NULL_ERROR, result, rs)
             | Some ident \<Rightarrow>
                 if identityLength = 0 then (IDENTITY_LENGTH_ERROR, result, rs)
                 else if \<not> validation_isPublicParametersValid E publicParameters
                 then (ILLEGAL_PUBLIC_PARAMETERS_ERROR, result, rs)
                 else
                   (let hashLen = hashLength (pp_hashFunction publicParameters);
                        ec = pp_ellipticCurve publicParameters
                    in case hashToPoint E ec (fieldOrder ec) (pp_q publicParameters)
                              ident (int identityLength) (pp_hashFunction publicParameters) of
                         (status, pointQId) \<Rightarrow>
                           if status \<noteq> SUCCESS then (status, result, rs)
                           else
                             (let (randomOctets, rs1) = randomBytes E hashLen rs;
                                  rho = octets hashLen randomOctets;
                                  t = sha_hash (pp_hashFunction publicParameters)
                                        (octets messageLength msg);
                                  concat = octets hashLen rho @ octets hashLen t;
                                  l = hashToRange E concat (2 * hashLen) (pp_q publicParameters)
                                        (pp_hashFunction publicParameters)
                              in case affine_wNAFMultiply E l (pp_pointP publicParameters) ec of
                                   (status, cipherPointU) \<Rightarrow>
                                     if status \<noteq> SUCCESS then (status, result, rs1)
                                     else
                                       (case tate_performPairing E 2 ec (pp_q publicParameters)
                                               (pp_pointPpublic publicParameters) pointQId of
                                          (status, theta) \<Rightarrow>
                                            if status \<noteq> SUCCESS then (status, result, rs1)
                                            else
                                              (let thetaPrime = complex_modPow E theta l (fieldOrder ec);
                                                   z = canonical E (fieldOrder ec) thetaPrime 1;
                                                   w = sha_hash (pp_hashFunction publicParameters) z;
                                                   cipherV = xor_octets hashLen w rho;
                                                   hashedBytes = hashBytes E messageLength rho hashLen
                                                                   (pp_hashFunction publicParameters);
                                                   cipherW = xor_octets messageLength hashedBytes msg
                                               in (SUCCESS,
                                                   Some \<lparr>ct_cipherU = cipherPointU,
                                                          ct_cipherV = cipherV,
                                                          ct_cipherVLength = hashLen,
                                                          ct_cipherW = cipherW,
                                                          ct_cipherWLength = messageLength\<rparr>,
                                                   rs1)))))))"

text \<open>
  \<^verbatim>\<open>cryptid_decrypt\<close>. \<open>result\<close> is what \<^verbatim>\<open>*result\<close> holds: the function stores the plaintext
  buffer \<^verbatim>\<open>m\<close> there on success and does not touch it otherwise. \<open>rho\<close> is the hash \<^verbatim>\<open>w\<close> of
  the canonical form of the pairing value \<open>theta\<close> xor-ed with \<^verbatim>\<open>cipherV\<close>, \<^verbatim>\<open>m\<close> is the output
  of \<^verbatim>\<open>hashBytes\<close> keyed with \<open>rho\<close> xor-ed with \<^verbatim>\<open>cipherW\<close>, \<^verbatim>\<open>t\<close> is the hash of the
  \<^verbatim>\<open>cipherWLength\<close> octets of \<^verbatim>\<open>m\<close>, and \<open>l\<close> is computed from \<^verbatim>\<open>concat\<close> as in
  \<^verbatim>\<open>cryptid_encrypt\<close>.
\<close>

definition cryptid_decrypt ::
    "('pt, 'cx, 'rs) env \<Rightarrow> byte list option \<Rightarrow> 'pt \<Rightarrow> 'pt CipherTextTuple
      \<Rightarrow> 'pt PublicParameters \<Rightarrow> Status \<times> byte list option"
where
  "cryptid_decrypt E result privateKey ciphertext publicParameters =
     (if \<not> validation_isPublicParametersValid E publicParameters
      then (ILLEGAL_PUBLIC_PARAMETERS_ERROR, result)
      else if \<not> validation_isAffinePointValid E privateKey
                  (fieldOrder (pp_ellipticCurve publicParameters))
      then (ILLEGAL_PRIVATE_KEY_ERROR, result)
      else if \<not> validation_isCipherTextTupleValid E ciphertext
                  (fieldOrder (pp_ellipticCurve publicParameters))
      then (ILLEGAL_CIPHERTEXT_TUPLE_ERROR, result)
      else
        (let hashLen = hashLength (pp_hashFunction publicParameters);
             ec = pp_ellipticCurve publicParameters
         in case tate_performPairing E 2 ec (pp_q publicParameters)
                   (ct_cipherU ciphertext) privateKey of
              (status, theta) \<Rightarrow>
                if status \<noteq> SUCCESS then (status, result)
                else
                  (let z = canonical E (fieldOrder ec) theta 1;
                       w = sha_hash (pp_hashFunction publicParameters) z;
                       rho = xor_octets hashLen w (ct_cipherV ciphertext);
                       hashedBytes = hashBytes E (ct_cipherWLength ciphertext) rho hashLen
                                       (pp_hashFunction publicParameters);
                       m = xor_octets (ct_cipherWLength ciphertext) hashedBytes
                             (ct_cipherW ciphertext);
                       t = sha_hash (pp_hashFunction publicParameters) m;
                       concat = octets hashLen rho @ octets hashLen t;
                       l = hashToRange E concat (2 * hashLen) (pp_q publicParameters)
                             (pp_hashFunction publicParameters)
                   in case affine_wNAFMultiply E l (pp_pointP publicParameters) ec of
                        (status, testPoint) \<Rightarrow>
                          if status \<noteq> SUCCESS then (status, result)
                          else if affine_isEquals E (ct_cipherU ciphertext) testPoint
                          then (SUCCESS, Some m)
                          else (DECRYPTION_FAILED_ERROR, result))))"

section \<open>What the protocol asks of the helper routines\<close>

text \<open>
  \<open>setup_searches_end\<close>: the generation of \<open>q\<close> fails, or both searches of setup end. Its
  first argument is the multiplication of the file, as for \<open>setup_find_pointP\<close>.
\<close>

definition setup_searches_end ::
    "(int \<Rightarrow> 'pt \<Rightarrow> EllipticCurve \<Rightarrow> CryptidStatus \<times> 'pt) \<Rightarrow> ('pt, 'cx, 'rs) env \<Rightarrow> nat \<Rightarrow> 'rs
      \<Rightarrow> bool"
where
  "setup_searches_end multiply E securityLevel rs =
     (case random_solinasPrime E (Q_LENGTH_MAPPING ! securityLevel)
             SOLINAS_GENERATION_ATTEMPT_LIMIT rs of
        (status, q, rs1) \<Rightarrow>
          status \<noteq> CRYPTID_SUCCESS
          \<or> (\<exists>r p rs2.
                setup_find_p E
                  (P_LENGTH_MAPPING ! securityLevel - Q_LENGTH_MAPPING ! securityLevel - 3)
                  q rs1 = Some (r, p, rs2)
                \<and> (\<exists>res. setup_find_pointP multiply E (ellipticCurve_init 0 1 p) r rs2
                             = Some res)))"

section \<open>The Lagrange coefficient of the specification\<close>

text \<open>Modelled from the spec: the Lagrange coefficient at 0, the product over the
  \<open>j\<close> in \<open>S\<close> other than \<open>i\<close> of \<open>(0 - j) / (i - j)\<close>, in the integers modulo a prime \<open>q\<close>,
  each quotient taken with the modular inverse of its denominator (the power \<open>q - 2\<close>
  modulo \<open>q\<close>). The source has no such routine; the definition is what the specification
  asks for, to be compared with \<open>Lagrange_coefficient\<close>.\<close>

definition mod_inverse :: "int \<Rightarrow> int \<Rightarrow> int" where
  "mod_inverse q x = (x mod q) ^ nat (q - 2) mod q"

definition Lagrange_coefficient_mod :: "int \<Rightarrow> int \<Rightarrow> int list \<Rightarrow> int" where
  "Lagrange_coefficient_mod q i S =
     foldl (\<lambda>acc j. if j \<noteq> i then acc * ((0 - j) mod q) * mod_inverse q (i - j) mod q else acc)
       1 S"

section \<open>A small instance of the helper routines\<close>

text \<open>
  An instance of the environment on which the functions above can be run. A point is
  an integer (its multiple of a generator \<open>1\<close>, the group written without reduction, \<open>0\<close>
  the point at infinity), an element of the target group is its exponent, and the
  pairing of \<open>a\<close> and \<open>b\<close> is \<open>a b\<close>, so that it is bilinear. The hash function has two octets
  of output. The random source is the list of the numbers still to be drawn and yields
  \<open>1\<close> for ever once the list is empty. No helper of \<open>toy_env\<close> fails; in
  \<open>toy_env_failing\<close> the pairing always fails; in \<open>toy_env_strict\<close> the pairing fails
  when one of its two points is the point at infinity, as the pairing of the library
  does.
\<close>

definition toy_hash :: HashFunction where
  "toy_hash = \<lparr>hashLength = 2, sha_hash = (\<lambda>bs. [word_of_nat (length bs), sum_list bs])\<rparr>"

definition toy_draw :: "int list \<Rightarrow> int \<times> int list" where
  "toy_draw rs = (case rs of [] \<Rightarrow> (1, []) | x # xs \<Rightarrow> (x, xs))"

definition toy_env :: "(int, int, int list) env" where
  "toy_env =
     \<lparr>AFFINE_MULTIPLY_IMPL = (\<lambda>k P ec. (CRYPTID_SUCCESS, k * P)),
      affine_wNAFMultiply = (\<lambda>k P ec. (CRYPTID_SUCCESS, k * P)),
      affine_add = (\<lambda>P Q ec. P + Q),
      affine_isInfinity = (\<lambda>P. P = 0),
      affine_isEquals = (\<lambda>P Q. P = Q),
      tate_performPairing = (\<lambda>k ec q P Q. (CRYPTID_SUCCESS, P * Q)),
      complex_initLong = (\<lambda>re im. 0),
      complex_modMul = (\<lambda>x y p. x + y),
      complex_modPow = (\<lambda>x k p. x * k),
      complex_modMulScalar = (\<lambda>x M p. x + M),
      complex_multiplicativeInverse = (\<lambda>x p. (CRYPTID_SUCCESS, - x)),
      mpz_invert = (\<lambda>x m. x ^ nat (m - 2) mod m),
      hashToRange = (\<lambda>s sLength p hf. sum_list (map uint s) mod p),
      hashToPoint = (\<lambda>ec p q ident identLength hf. (CRYPTID_SUCCESS, 1 + int (length ident))),
      canonical = (\<lambda>p v order. [word_of_int v]),
      hashBytes = (\<lambda>b p pLength hf. map (\<lambda>i. word_of_nat i + sum_list p) [0..<b]),
      hashFunction_initForSecurityLevel = (\<lambda>level. toy_hash),
      validation_isProbablePrime =
        (\<lambda>p. p \<in> set [2, 3, 5, 7, 11, 13, 17, 19, 23, 29, 31, 37, 41, 43, 47, 53, 59]),
      validation_isPublicParametersValid = (\<lambda>pp. True),
      validation_isAffinePointValid = (\<lambda>P p. True),
      validation_isCipherTextTupleValid = (\<lambda>ct p. True),
      random_solinasPrime = (\<lambda>n limit rs. (CRYPTID_SUCCESS, fst (toy_draw rs), snd (toy_draw rs))),
      random_mpzOfLength = (\<lambda>n rs. toy_draw rs),
      random_mpzInRange = (\<lambda>bound rs. toy_draw rs),
      random_affinePoint = (\<lambda>ec limit rs. (CRYPTID_SUCCESS, fst (toy_draw rs), snd (toy_draw rs))),
      randomBytes = (\<lambda>n rs. (replicate n (word_of_int (fst (toy_draw rs))), snd (toy_draw rs))),
      ABE_randomNumber = (\<lambda>pk rs. toy_draw rs),
      createPolynom = (\<lambda>d s pk rs. ([s], rs)),
      polynomSum = (\<lambda>qx i. sum_list qx),
      isLeaf = (\<lambda>t. list_all (\<lambda>c. c = None) (t_children t)),
      satisfyValue = (\<lambda>t attrs. 1),
      ATTRIBUTE_LENGTH = 20\<rparr>"

definition toy_env_failing :: "(int, int, int list) env" where
  "toy_env_failing =
     toy_env\<lparr>tate_performPairing := (\<lambda>k ec q P Q. (CRYPTID_HELPER_ERROR 1, 0))\<rparr>"

definition toy_env_strict :: "(int, int, int list) env" where
  "toy_env_strict =
     toy_env\<lparr>tate_performPairing :=
               (\<lambda>k ec q P Q. if P = 0 \<or> Q = 0 then (CRYPTID_HELPER_ERROR 1, 0)
                             else (CRYPTID_SUCCESS, P * Q))\<rparr>"

text \<open>
  A public key, a master key with \<open>\<alpha> = 2\<close> and \<open>\<beta> = 3\<close> (so \<open>g_alpha = 2\<close>, and \<open>20\<close> is the
  inverse of \<open>3\<close> modulo \<open>59\<close>), a secret key that holds the attribute \<open>a\<close> only, an empty
  secret key, and the tree "2 of (a, b)" with two slots for children.
\<close>

definition toy_pk :: "(int, int) PublicKey_ABE" where
  "toy_pk = \<lparr>pk_ellipticCurve = ellipticCurve_init 0 1 59, pk_g = 1, pk_h = 3, pk_f = 20,
             pk_eggalpha = 2, pk_hashFunction = toy_hash, pk_q = 5\<rparr>"

definition toy_mk :: "(int, int) MasterKey_ABE" where
  "toy_mk = \<lparr>mk_beta = 3, mk_g_alpha = 2, mk_pubkey = toy_pk\<rparr>"

definition toy_sk :: "(int, int) SecretKey_ABE" where
  "toy_sk = \<lparr>sk_D = 0, sk_Dj = [11, 0], sk_DjA = [4, 0], sk_attributes = [''a'', ''''],
             sk_pubkey = toy_pk\<rparr>"

definition toy_sk_blank :: "(int, int) SecretKey_ABE" where
  "toy_sk_blank = \<lparr>sk_D = 0, sk_Dj = [0, 0], sk_DjA = [0, 0], sk_attributes = ['''', ''''],
                   sk_pubkey = toy_pk\<rparr>"

definition toy_leaf :: "string \<Rightarrow> int AccessTree" where
  "toy_leaf attr = AccessTree 1 [None, None] attr (int (length attr)) 5 10"

definition toy_tree :: "int AccessTree" where
  "toy_tree = AccessTree 2 [Some (toy_leaf ''a''), Some (toy_leaf ''b'')] [] 0 0 0"

definition toy_tree_or :: "int AccessTree" where
  "toy_tree_or = AccessTree 1 [Some (toy_leaf ''a''), Some (toy_leaf ''b'')] [] 0 0 0"

definition toy_encrypted :: "(int, int) EncryptedMessage_ABE" where
  "toy_encrypted = \<lparr>em_tree = toy_tree, em_Ctilde = 7, em_C = 3\<rparr>"

text \<open>
  Out-parameters as a caller might pass them (all fields zero), and public parameters
  of the identity-based scheme with \<open>q = 13\<close> and master secret \<open>2\<close> (so
  \<open>pointPpublic = 2\<close>).
\<close>

definition toy_pk_blank :: "(int, int) PublicKey_ABE" where
  "toy_pk_blank = \<lparr>pk_ellipticCurve = ellipticCurve_init 0 0 0, pk_g = 0, pk_h = 0, pk_f = 0,
                   pk_eggalpha = 0, pk_hashFunction = toy_hash, pk_q = 0\<rparr>"

definition toy_mk_blank :: "(int, int) MasterKey_ABE" where
  "toy_mk_blank = \<lparr>mk_beta = 0, mk_g_alpha = 0, mk_pubkey = toy_pk_blank\<rparr>"

definition toy_pp_blank :: "int PublicParameters" where
  "toy_pp_blank = \<lparr>pp_ellipticCurve = ellipticCurve_init 0 0 0, pp_q = 0, pp_pointP = 0,
                   pp_pointPpublic = 0, pp_hashFunction = toy_hash\<rparr>"

definition toy_pp :: "int PublicParameters" where
  "toy_pp = \<lparr>pp_ellipticCurve = ellipticCurve_init 0 1 59, pp_q = 13, pp_pointP = 1,
             pp_pointPpublic = 2, pp_hashFunction = toy_hash\<rparr>"


section \<open>Properties\<close>

lemma toy_env_fields:
  "AFFINE_MULTIPLY_IMPL toy_env = (\<lambda>k P ec. (CRYPTID_SUCCESS, k * P))"
  "affine_wNAFMultiply toy_env = (\<lambda>k P ec. (CRYPTID_SUCCESS, k * P))"
  "affine_add toy_env = (\<lambda>P Q ec. P + Q)"
  "affine_isInfinity toy_env = (\<lambda>P. P = 0)"
  "affine_isEquals toy_env = (\<lambda>P Q. P = Q)"
  "tate_performPairing toy_env = (\<lambda>k ec q P Q. (CRYPTID_SUCCESS, P * Q))"
  "complex_modMul toy_env = (\<lambda>x y p. x + y)"
  "complex_modPow toy_env = (\<lambda>x k p. x * k)"
  "complex_multiplicativeInverse toy_env = (\<lambda>x p. (CRYPTID_SUCCESS, - x))"
  "mpz_invert toy_env = (\<lambda>x m. x ^ nat (m - 2) mod m)"
  "hashToRange toy_env = (\<lambda>s sLength p hf. sum_list (map uint s) mod p)"
  "hashToPoint toy_env = (\<lambda>ec p q ident identLength hf. (CRYPTID_SUCCESS, 1 + int (length ident)))"
  "canonical toy_env = (\<lambda>p v order. [word_of_int v])"
  "hashBytes toy_env = (\<lambda>b p pLength hf. map (\<lambda>i. word_of_nat i + sum_list p) [0..<b])"
  "hashFunction_initForSecurityLevel toy_env = (\<lambda>level. toy_hash)"
  "validation_isProbablePrime toy_env =
     (\<lambda>p. p \<in> set [2, 3, 5, 7, 11, 13, 17, 19, 23, 29, 31, 37, 41, 43, 47, 53, 59])"
  "validation_isPublicParametersValid toy_env = (\<lambda>pp. True)"
  "validation_isAffinePointValid toy_env = (\<lambda>P p. True)"
  "validation_isCipherTextTupleValid toy_env = (\<lambda>ct p. True)"
  "random_solinasPrime toy_env =
     (\<lambda>n limit rs. (CRYPTID_SUCCESS, fst (toy_draw rs), snd (toy_draw rs)))"
  "random_mpzOfLength toy_env = (\<lambda>n rs. toy_draw rs)"
  "random_mpzInRange toy_env = (\<lambda>bound rs. toy_draw rs)"
  "random_affinePoint toy_env =
     (\<lambda>ec limit rs. (CRYPTID_SUCCESS, fst (toy_draw rs), snd (toy_draw rs)))"
  "randomBytes toy_env =
     (\<lambda>n rs. (replicate n (word_of_int (fst (toy_draw rs))), snd (toy_draw rs)))"
  "ABE_randomNumber toy_env = (\<lambda>pk rs. toy_draw rs)"
  "isLeaf toy_env = (\<lambda>t. list_all (\<lambda>c. c = None) (t_children t))"
  "satisfyValue toy_env = (\<lambda>t attrs. 1)"
  "ATTRIBUTE_LENGTH toy_env = 20"
  by (simp_all add: toy_env_def)

lemma toy_env_failing_fields:
  "tate_performPairing toy_env_failing = (\<lambda>k ec q P Q. (CRYPTID_HELPER_ERROR 1, 0))"
  "isLeaf toy_env_failing = (\<lambda>t. list_all (\<lambda>c. c = None) (t_children t))"
  "AFFINE_MULTIPLY_IMPL toy_env_failing = (\<lambda>k P ec. (CRYPTID_SUCCESS, k * P))"
  "affine_isInfinity toy_env_failing = (\<lambda>P. P = 0)"
  "mpz_invert toy_env_failing = (\<lambda>x m. x ^ nat (m - 2) mod m)"
  "hashFunction_initForSecurityLevel toy_env_failing = (\<lambda>level. toy_hash)"
  "validation_isProbablePrime toy_env_failing =
     (\<lambda>p. p \<in> set [2, 3, 5, 7, 11, 13, 17, 19, 23, 29, 31, 37, 41, 43, 47, 53, 59])"
  "random_solinasPrime toy_env_failing =
     (\<lambda>n limit rs. (CRYPTID_SUCCESS, fst (toy_draw rs), snd (toy_draw rs)))"
  "random_mpzOfLength toy_env_failing = (\<lambda>n rs. toy_draw rs)"
  "random_mpzInRange toy_env_failing = (\<lambda>bound rs. toy_draw rs)"
  "random_affinePoint toy_env_failing =
     (\<lambda>ec limit rs. (CRYPTID_SUCCESS, fst (toy_draw rs), snd (toy_draw rs)))"
  by (simp_all add: toy_env_failing_def toy_env_def)

lemma toy_env_strict_fields:
  "tate_performPairing toy_env_strict =
     (\<lambda>k ec q P Q. if P = 0 \<or> Q = 0 then (CRYPTID_HELPER_ERROR 1, 0)
                   else (CRYPTID_SUCCESS, P * Q))"
  "affine_wNAFMultiply toy_env_strict = (\<lambda>k P ec. (CRYPTID_SUCCESS, k * P))"
  "affine_isInfinity toy_env_strict = (\<lambda>P. P = 0)"
  "affine_isEquals toy_env_strict = (\<lambda>P Q. P = Q)"
  "complex_modPow toy_env_strict = (\<lambda>x k p. x * k)"
  "hashToRange toy_env_strict = (\<lambda>s sLength p hf. sum_list (map uint s) mod p)"
  "hashToPoint toy_env_strict =
     (\<lambda>ec p q ident identLength hf. (CRYPTID_SUCCESS, 1 + int (length ident)))"
  "canonical toy_env_strict = (\<lambda>p v order. [word_of_int v])"
  "hashBytes toy_env_strict = (\<lambda>b p pLength hf. map (\<lambda>i. word_of_nat i + sum_list p) [0..<b])"
  "validation_isPublicParametersValid toy_env_strict = (\<lambda>pp. True)"
  "validation_isAffinePointValid toy_env_strict = (\<lambda>P p. True)"
  "validation_isCipherTextTupleValid toy_env_strict = (\<lambda>ct p. True)"
  "randomBytes toy_env_strict =
     (\<lambda>n rs. (replicate n (word_of_int (fst (toy_draw rs))), snd (toy_draw rs)))"
  by (simp_all add: toy_env_strict_def toy_env_def)

text \<open>
  Claim C10. \<^verbatim>\<open>cryptid_encrypt_ABE\<close> answers a \<^verbatim>\<open>NULL\<close> message, a \<^verbatim>\<open>NULL\<close> public key and a
  \<^verbatim>\<open>NULL\<close> access tree with the same status \<^verbatim>\<open>CRYPTID_MESSAGE_NULL_ERROR\<close>, whatever the
  other arguments are, and a message of length zero with \<^verbatim>\<open>CRYPTID_MESSAGE_LENGTH_ERROR\<close>.
  The first four cases are the four checks in the order of the source; a non-zero
  length is written \<open>Suc n\<close>. In the last case, where nothing is missing, the status is
  the one of the final multiplication.
\<close>

theorem cryptid_encrypt_ABE_argument_errors:
  "fst (cryptid_encrypt_ABE E encrypted None messageLength publickey accessTree rs)
     = CRYPTID_MESSAGE_NULL_ERROR
   \<and> fst (cryptid_encrypt_ABE E encrypted (Some msg) 0 publickey accessTree rs)
     = CRYPTID_MESSAGE_LENGTH_ERROR
   \<and> fst (cryptid_encrypt_ABE E encrypted (Some msg) (Suc n) None accessTree rs)
     = CRYPTID_MESSAGE_NULL_ERROR
   \<and> fst (cryptid_encrypt_ABE E encrypted (Some msg) (Suc n) (Some pk) None rs)
     = CRYPTID_MESSAGE_NULL_ERROR
   \<and> fst (cryptid_encrypt_ABE E encrypted (Some msg) (Suc n) (Some pk) (Some tree) rs)
     = fst (AFFINE_MULTIPLY_IMPL E
              (fst (random_mpzInRange E (fieldOrder (pk_ellipticCurve pk) - 1) rs))
              (pk_h pk) (pk_ellipticCurve pk))"
  by (simp add: cryptid_encrypt_ABE_def Let_def split: prod.splits)

text \<open>
  Claim C3. \<^verbatim>\<open>Lagrange_coefficient\<close> divides integers: for \<open>i = 1\<close>, \<open>S = {1, 2, 3}\<close> and
  \<open>x = 0\<close> it returns \<open>(-2 / -1) (-3 / -2) = 2 \<sdot> 1 = 2\<close>, where the coefficient is \<open>3\<close>, which
  is also its value with modular inverses modulo the prime \<open>7\<close>.
\<close>

theorem Lagrange_coefficient_integer_division:
  "Lagrange_coefficient 1 [1, 2, 3] 3 0 = 2 \<and> Lagrange_coefficient_mod 7 1 [1, 2, 3] = 3"
  by (simp add: Lagrange_coefficient_def c_int_def signed_divide_int_def
        Lagrange_coefficient_mod_def mod_inverse_def)

lemma stored_indexes_length:
  "length (stored_indexes Sx) = length (filter (\<lambda>slot. slot \<noteq> None) Sx)"
proof -
  have "card {i. i < length Sx \<and> Sx ! i \<noteq> None}
          = card {i. i < length [0..<length Sx] \<and> Sx ! ([0..<length Sx] ! i) \<noteq> None}"
    by (rule arg_cong [where f = card]) auto
  then show ?thesis
    by (simp add: stored_indexes_def length_filter_conv_card)
qed

lemma DecryptNode_Fx_reads_past_indexes:
  "DecryptNode_Fx E p Sx indexes (length indexes) num (i # rounds) Fx = None"
  by (simp add: read_array_def Let_def)


lemma DecryptNode_ABE_successful_child:
  assumes "\<not> isLeaf E node"
    and "DecryptNode_children E encrypted secretkey (t_children node) = Some Sx"
    and "\<exists>slot \<in> set Sx. slot \<noteq> None"
  shows "DecryptNode_ABE E encrypted secretkey node result statusCode
           = (None, result, statusCode)"
proof (cases node)
  case (AccessTree v cs attr attrLen cy cya)
  define num where "num = length (filter (\<lambda>slot. slot \<noteq> None) Sx)"
  from assms(3) have "filter (\<lambda>slot. slot \<noteq> None) Sx \<noteq> []"
    by (simp add: filter_empty_conv del: not_None_eq)
  then have pos: "0 < num"
    by (simp add: num_def)
  then have rounds: "[0..<num] = 0 # [Suc 0..<num]"
    by (simp add: upt_conv_Cons)
  from assms(1,2) AccessTree pos show ?thesis
    by (simp add: Let_def num_def [symmetric] rounds DecryptNode_Fx_reads_past_indexes
          del: DecryptNode_Fx.simps not_None_eq)
qed




text \<open>
  Claim C4. \<^verbatim>\<open>DecryptNode_ABE\<close> does not compare the number of successful children with the
  threshold. On the tree "2 of (a, b)" and the key that holds \<open>a\<close> only, one child of two
  succeeds (the array \<^verbatim>\<open>Sx\<close> holds one value, of the leaf \<open>a\<close>); the call does not return
  with the code left at 0 but enters the block under \<^verbatim>\<open>if(num > 0)\<close>, where the read of
  \<^verbatim>\<open>indexes[c]\<close> is one past the end of the array, and returns no status. The same happens
  on the tree "1 of (a, b)", where the one successful child is enough: no product \<^verbatim>\<open>Fx\<close>
  is returned, and \<^verbatim>\<open>*result\<close> is still unwritten.
\<close>

theorem DecryptNode_ABE_below_threshold:
  "t_value toy_tree = 2
   \<and> DecryptNode_children toy_env toy_encrypted toy_sk (t_children toy_tree)
       = Some [Some (Some 15), None]
   \<and> DecryptNode_ABE toy_env toy_encrypted toy_sk toy_tree None 0 = (None, None, 0)
   \<and> t_value toy_tree_or = 1
   \<and> DecryptNode_ABE toy_env toy_encrypted toy_sk toy_tree_or None 0 = (None, None, 0)"
  by (simp add: toy_tree_def toy_tree_or_def toy_leaf_def toy_env_fields toy_sk_def toy_pk_def
        ellipticCurve_init_def stored_indexes_def read_array_def Let_def)

text \<open>
  Claim C2. \<^verbatim>\<open>cryptid_decrypt_ABE\<close> never writes to the buffer \<^verbatim>\<open>result\<close>: whatever the
  ciphertext and the key, the buffer is at the return statement what it was at the call.
  For the tree that is the single leaf \<open>a\<close> and the key that holds \<open>a\<close>, the call returns
  success, prints the value it has computed, and the two octets of the buffer are still
  zero.
\<close>

theorem cryptid_decrypt_ABE_result_untouched:
  "fst (snd (cryptid_decrypt_ABE E result encrypted secretkey)) = result
   \<and> cryptid_decrypt_ABE toy_env [0, 0] (toy_encrypted\<lparr>em_tree := toy_leaf ''a''\<rparr>) toy_sk
       = (Some CRYPTID_SUCCESS, [0, 0], Some 22)"
proof -
  have "fst (snd (cryptid_decrypt_ABE E result encrypted secretkey)) = result"
    by (simp add: cryptid_decrypt_ABE_def Let_def split: prod.split option.split)
  moreover
  have "cryptid_decrypt_ABE toy_env [0, 0] (toy_encrypted\<lparr>em_tree := toy_leaf ''a''\<rparr>) toy_sk
          = (Some CRYPTID_SUCCESS, [0, 0], Some 22)"
    by (simp add: cryptid_decrypt_ABE_def toy_env_fields toy_encrypted_def toy_leaf_def
          toy_sk_def toy_pk_def ellipticCurve_init_def)
  ultimately show ?thesis by simp
qed

lemma p_search_state_Suc:
  "p_search_state E lengthOfR rs (Suc n) =
     p_search_state E lengthOfR (snd (random_mpzOfLength E lengthOfR rs)) n"
  by (simp only: p_search_state_def funpow_Suc_right o_apply)

lemma setup_find_p_ends_if_hit:
  "p_search_hit E lengthOfR q (p_search_state E lengthOfR rs n)
     \<Longrightarrow> \<exists>res. setup_find_p E lengthOfR q rs = Some res"
proof (induction n arbitrary: rs)
  case 0
  then have "p_search_hit E lengthOfR q rs" by (simp add: p_search_state_def)
  then show ?case
    by (subst setup_find_p.simps) (simp add: p_search_hit_def Let_def)
next
  case (Suc n)
  then have "\<exists>res. setup_find_p E lengthOfR q (snd (random_mpzOfLength E lengthOfR rs)) = Some res"
    by (simp add: p_search_state_Suc)
  then show ?case
    by (subst setup_find_p.simps) (simp add: Let_def)
qed

lemma setup_find_p_hit_if_ends:
  assumes "setup_find_p E lengthOfR q rs = Some res"
  shows "\<exists>n. p_search_hit E lengthOfR q (p_search_state E lengthOfR rs n)"
  apply (rule setup_find_p.raw_induct
    [where P = "\<lambda>E lengthOfR q rs res.
                  \<exists>n. p_search_hit E lengthOfR q (p_search_state E lengthOfR rs n)",
     OF _ assms])
  subgoal premises prems for find_p E' l' q' rs' res'
  proof (cases "p_search_hit E' l' q' rs'")
    case True
    then have "p_search_hit E' l' q' (p_search_state E' l' rs' 0)"
      by (simp add: p_search_state_def)
    then show ?thesis by blast
  next
    case False
    with prems(2) have "find_p E' l' q' (snd (random_mpzOfLength E' l' rs')) = Some res'"
      by (simp add: p_search_hit_def Let_def)
    from prems(1) [OF this] obtain n where
      "p_search_hit E' l' q' (p_search_state E' l' (snd (random_mpzOfLength E' l' rs')) n)" ..
    then have "p_search_hit E' l' q' (p_search_state E' l' rs' (Suc n))"
      by (simp add: p_search_state_Suc)
    then show ?thesis by blast
  qed
  done

lemma pointP_search_state_Suc:
  "pointP_search_state E ec rs (Suc n) =
     pointP_search_state E ec
       (snd (snd (random_affinePoint E ec POINT_GENERATION_ATTEMPT_LIMIT rs))) n"
  by (simp only: pointP_search_state_def funpow_Suc_right o_apply)

lemma setup_find_pointP_ends_if_stop:
  "\<not> pointP_search_continues multiply E ec r (pointP_search_state E ec rs n)
     \<Longrightarrow> \<exists>res. setup_find_pointP multiply E ec r rs = Some res"
proof (induction n arbitrary: rs)
  case 0
  then have "\<not> pointP_search_continues multiply E ec r rs"
    by (simp add: pointP_search_state_def)
  then show ?case
    by (subst setup_find_pointP.simps) (auto simp: pointP_search_continues_def Let_def)
next
  case (Suc n)
  then have "\<exists>res. setup_find_pointP multiply E ec r
               (snd (snd (random_affinePoint E ec POINT_GENERATION_ATTEMPT_LIMIT rs))) = Some res"
    by (simp add: pointP_search_state_Suc)
  then show ?case
    by (subst setup_find_pointP.simps) (simp add: Let_def)
qed

lemma setup_find_pointP_stop_if_ends:
  assumes "setup_find_pointP multiply E ec r rs = Some res"
  shows "\<exists>n. \<not> pointP_search_continues multiply E ec r (pointP_search_state E ec rs n)"
  apply (rule setup_find_pointP.raw_induct
    [where P = "\<lambda>multiply E ec r rs res.
                  \<exists>n. \<not> pointP_search_continues multiply E ec r (pointP_search_state E ec rs n)",
     OF _ assms])
  subgoal premises prems for find_pointP m' E' ec' r' rs' res'
  proof (cases "pointP_search_continues m' E' ec' r' rs'")
    case False
    then have "\<not> pointP_search_continues m' E' ec' r' (pointP_search_state E' ec' rs' 0)"
      by (simp add: pointP_search_state_def)
    then show ?thesis by blast
  next
    case True
    with prems(2) have "find_pointP m' E' ec' r'
        (snd (snd (random_affinePoint E' ec' POINT_GENERATION_ATTEMPT_LIMIT rs'))) = Some res'"
      by (simp add: pointP_search_continues_def Let_def)
    from prems(1) [OF this] obtain n where
      "\<not> pointP_search_continues m' E' ec' r'
         (pointP_search_state E' ec'
            (snd (snd (random_affinePoint E' ec' POINT_GENERATION_ATTEMPT_LIMIT rs'))) n)" ..
    then have "\<not> pointP_search_continues m' E' ec' r' (pointP_search_state E' ec' rs' (Suc n))"
      by (simp add: pointP_search_state_Suc)
    then show ?thesis by blast
  qed
  done

lemma cryptid_setup_returns_iff:
  "(\<exists>res. cryptid_setup E securityLevel (Some pp) masterSecret rs = Some res)
     = setup_searches_end (affine_wNAFMultiply E) E securityLevel rs"
  by (auto simp: cryptid_setup_def setup_searches_end_def Let_def
        split: prod.splits option.splits if_splits)

lemma cryptid_setup_ABE_returns_iff:
  "(\<exists>res. cryptid_setup_ABE E securityLevel publickey masterkey rs = Some res)
     = setup_searches_end (AFFINE_MULTIPLY_IMPL E) E securityLevel rs"
  by (auto simp: cryptid_setup_ABE_def setup_searches_end_def Let_def
        split: prod.splits option.splits if_splits)

text \<open>
  Claim C5. \<^verbatim>\<open>cryptid_keygen_ABE\<close> computes \<^verbatim>\<open>Gar\<close> as \<open>r\<close> times \<^verbatim>\<open>g_alpha\<close>, not as the sum of
  \<^verbatim>\<open>g_alpha\<close> and \<open>r g\<close>. With \<open>g = 1\<close>, \<open>\<alpha> = 2\<close>, \<open>\<beta> = 3\<close> (inverse \<open>20\<close>) and the draws \<open>r = 3\<close>,
  \<open>r\<^sub>j = 4\<close> it stores \<open>D = 20 (3 \<sdot> 2) = 120\<close>, where \<open>\<beta>\<^sup>-\<^sup>1 (\<alpha> g + r g) = 20 (2 + 3) = 100\<close>. The
  components of the attribute are as the claim says: \<open>Dj = r g + r\<^sub>j H(a) = 3 + 4 \<sdot> 2 = 11\<close>
  and \<open>DjA = r\<^sub>j g = 4\<close>.
\<close>

theorem cryptid_keygen_ABE_D_is_a_product:
  "cryptid_keygen_ABE toy_env toy_mk [''a'', ''''] toy_sk_blank [3, 4]
     = (CRYPTID_SUCCESS,
        \<lparr>sk_D = 120, sk_Dj = [11, 0], sk_DjA = [4, 0], sk_attributes = [''a'', ''''],
         sk_pubkey = toy_pk\<rparr>, [])
   \<and> snd (AFFINE_MULTIPLY_IMPL toy_env (mpz_invert toy_env (mk_beta toy_mk) 59)
            (affine_add toy_env (mk_g_alpha toy_mk)
               (snd (AFFINE_MULTIPLY_IMPL toy_env 3 (pk_g toy_pk) (pk_ellipticCurve toy_pk)))
               (pk_ellipticCurve toy_pk))
            (pk_ellipticCurve toy_pk)) = 100"
  by (simp add: cryptid_keygen_ABE_def toy_env_fields toy_mk_def toy_pk_def toy_sk_blank_def
        toy_draw_def ellipticCurve_init_def)

lemma toy_failing_find_p:
  "setup_find_p toy_env_failing 349 5 [1, 7, 2, 3] = Some (1, 59, [7, 2, 3])"
  by (subst setup_find_p.simps) (simp add: toy_env_failing_fields toy_draw_def)

lemma toy_failing_find_pointP:
  "setup_find_pointP (\<lambda>k P ec. (CRYPTID_SUCCESS, k * P)) toy_env_failing ec 1 [7, 2, 3]
     = Some (CRYPTID_SUCCESS, Some 84, [2, 3])"
  by (subst setup_find_pointP.simps) (simp add: toy_env_failing_fields toy_draw_def)

text \<open>
  Claim C8. \<^verbatim>\<open>cryptid_setup_ABE\<close> writes into its out-parameters before its last step
  that can fail. Where the pairing fails (the last such step) the call returns the error
  of the pairing, and the public key and the master key, all zero at the call, hold the
  curve, \<open>g\<close>, \<open>h\<close>, \<open>f\<close>, \<open>q\<close>, \<open>beta\<close> and \<open>g_alpha\<close> of the run.
\<close>

theorem cryptid_setup_ABE_partial_output:
  "cryptid_setup_ABE toy_env_failing 0 toy_pk_blank toy_mk_blank [5, 1, 7, 2, 3]
     = Some (CRYPTID_HELPER_ERROR 1,
             \<lparr>pk_ellipticCurve = ellipticCurve_init 0 1 59, pk_g = 84, pk_h = 252, pk_f = 1680,
              pk_eggalpha = 0, pk_hashFunction = toy_hash, pk_q = 5\<rparr>,
             \<lparr>mk_beta = 3, mk_g_alpha = 168, mk_pubkey = toy_pk_blank\<rparr>, [])
   \<and> pk_g toy_pk_blank = 0 \<and> mk_beta toy_mk_blank = 0"
  by (simp add: cryptid_setup_ABE_def toy_env_failing_fields toy_draw_def Q_LENGTH_MAPPING_def
        P_LENGTH_MAPPING_def toy_failing_find_p toy_failing_find_pointP toy_pk_blank_def
        toy_mk_blank_def ellipticCurve_init_def Let_def)


lemma octets_length: "octets (length b) b = b"
  by (simp add: octets_def map_nth)



text \<open>
  Claim C7, as amended. The two loops of setup have no cap on their rounds. The search
  for \<open>r\<close> ends exactly when some draw gives a \<open>p\<close> that passes the primality test; the
  search for the point \<open>P\<close> ends exactly when some draw does not send it round again
  (the generation or the multiplication fails, or the product is not the point at
  infinity). \<^verbatim>\<open>cryptid_setup\<close> and \<^verbatim>\<open>cryptid_setup_ABE\<close> return, with success or with an
  error, exactly when the generation of \<open>q\<close> fails or both searches end.
\<close>

theorem setup_returns_iff_searches_end:
  "((\<exists>res. setup_find_p E lengthOfR q rs = Some res)
      = (\<exists>n. p_search_hit E lengthOfR q (p_search_state E lengthOfR rs n)))
   \<and> ((\<exists>res. setup_find_pointP multiply E ec r rs' = Some res)
      = (\<exists>n. \<not> pointP_search_continues multiply E ec r (pointP_search_state E ec rs' n)))
   \<and> ((\<exists>res. cryptid_setup E securityLevel (Some pp) masterSecret rs0 = Some res)
      = setup_searches_end (affine_wNAFMultiply E) E securityLevel rs0)
   \<and> ((\<exists>res. cryptid_setup_ABE E securityLevel publickey masterkey rs0 = Some res)
      = setup_searches_end (AFFINE_MULTIPLY_IMPL E) E securityLevel rs0)"
  using setup_find_p_ends_if_hit [of E lengthOfR q rs]
    setup_find_p_hit_if_ends [of E lengthOfR q rs]
    setup_find_pointP_ends_if_stop [of multiply E ec r rs']
    setup_find_pointP_stop_if_ends [of multiply E ec r rs']
    cryptid_setup_returns_iff [of E securityLevel pp masterSecret rs0]
    cryptid_setup_ABE_returns_iff [of E securityLevel publickey masterkey rs0]
  by blast

lemma toy_find_p:
  "setup_find_p toy_env 349 5 [1, 7, 2] = Some (1, 59, [7, 2])"
  by (subst setup_find_p.simps) (simp add: toy_env_fields toy_draw_def)

lemma toy_find_pointP:
  "setup_find_pointP (\<lambda>k P ec. (CRYPTID_SUCCESS, k * P)) toy_env ec 1 [7, 2]
     = Some (CRYPTID_SUCCESS, Some 84, [2])"
  by (subst setup_find_pointP.simps) (simp add: toy_env_fields toy_draw_def)

text \<open>
  With the draws \<open>q = 5\<close>, \<open>r = 1\<close> (so \<open>p = 59\<close>), the point \<open>7\<close> and \<open>s - 2 = 2\<close> both
  searches end at their first round and \<^verbatim>\<open>cryptid_setup\<close> returns.
\<close>

theorem setup_returns_iff_searches_end_witness:
  "setup_searches_end (affine_wNAFMultiply toy_env) toy_env 0 [5, 1, 7, 2]
   \<and> (\<exists>res. cryptid_setup toy_env 0 (Some toy_pp_blank) 0 [5, 1, 7, 2] = Some res)"
proof -
  have ends: "setup_searches_end (affine_wNAFMultiply toy_env) toy_env 0 [5, 1, 7, 2]"
    by (simp add: setup_searches_end_def toy_env_fields toy_draw_def Q_LENGTH_MAPPING_def
          P_LENGTH_MAPPING_def toy_find_p toy_find_pointP)
  with setup_returns_iff_searches_end
         [of toy_env 0 0 "[]" "affine_wNAFMultiply toy_env" "ellipticCurve_init 0 0 0" 0 "[]"
             0 toy_pp_blank 0 "[5, 1, 7, 2]" toy_pk_blank toy_mk_blank]
  show ?thesis by blast
qed

lemma toy_p_search_state_empty: "p_search_state toy_env lengthOfR [] n = []"
  by (induction n) (simp_all add: p_search_state_def toy_env_fields toy_draw_def)

lemma toy_find_p_never_ends: "setup_find_p toy_env lengthOfR 3 [] = None"
proof (cases "setup_find_p toy_env lengthOfR 3 []")
  case None
  then show ?thesis .
next
  case (Some res)
  from setup_find_p_hit_if_ends [OF this]
  have "p_search_hit toy_env lengthOfR 3 []"
    by (simp add: toy_p_search_state_empty)
  then show ?thesis
    by (simp add: p_search_hit_def toy_env_fields toy_draw_def)
qed

text \<open>
  Claim C7 as stated fails: with \<open>q = 3\<close> and a random source that draws \<open>r = 1\<close> for ever,
  \<open>p = 35\<close> never passes the primality test and \<^verbatim>\<open>cryptid_setup\<close> never returns.
\<close>

theorem cryptid_setup_never_returns:
  "cryptid_setup toy_env 0 (Some toy_pp_blank) 0 [3] = None"
  by (simp add: cryptid_setup_def toy_env_fields toy_draw_def toy_find_p_never_ends)

lemma xor_octets_cancel: "xor_octets n a (xor_octets n a b) = octets n b"
  by (simp add: xor_octets_def octets_def xor.assoc [symmetric])

lemma octets_octets: "octets n (octets n b) = octets n b"
  by (simp add: octets_def)

text \<open>
  Claim C1, as amended. Decryption inverts encryption when neither the point \<open>U = l P\<close> of
  the ciphertext nor the private key is the point at infinity. Let \<^verbatim>\<open>pointPpublic\<close> be the
  master secret \<open>s\<close> times \<^verbatim>\<open>pointP\<close>, let \<^verbatim>\<open>cryptid_extract\<close> return the private key of an
  identity and \<^verbatim>\<open>cryptid_encrypt\<close> return a ciphertext of the message \<open>msg\<close> for the same
  identity (so the identity and the message are not empty), and let the validation accept
  the key and the ciphertext. Let \<open>Q\<close> be the hash point of the identity and
  \<open>l = hashToRange(rho || H(msg), q)\<close> for the random octets \<open>rho\<close> of the encryption. Of the
  helpers the theorem asks what this run uses: the pairing is bilinear at its points,
  \<open>e(l P, s Q) = e(s P, Q)\<^sup>l\<close>, as long as \<open>U = l P\<close> and the key \<open>s Q\<close> are not the point at
  infinity; \<^verbatim>\<open>affine_isEquals\<close> holds of \<open>U\<close> and itself; a hash has \<^verbatim>\<open>hashLength\<close> octets,
  \<^verbatim>\<open>randomBytes\<close> fills the \<^verbatim>\<open>hashLength\<close> octets of \<open>rho\<close>, and \<^verbatim>\<open>hashBytes\<close> returns as many
  octets as the message has (its header promises that up to the length of a hash). Then
  \<^verbatim>\<open>cryptid_decrypt\<close> returns success and the message. The public parameters are any, so
  those of every security level.
\<close>

theorem ibe_round_trip:
  assumes master: "affine_wNAFMultiply E masterSecret (pp_pointP pp) (pp_ellipticCurve pp)
                   = (SUCCESS, pp_pointPpublic pp)"
    and extracted: "cryptid_extract E (Some key0) ident identLength pp masterSecret
                    = (SUCCESS, Some privateKey)"
    and encrypted: "cryptid_encrypt E result0 (Some msg) (length msg) (Some ident) identLength pp rs
                    = (SUCCESS, Some ciphertext, rs')"
    and valid_key: "validation_isAffinePointValid E privateKey (fieldOrder (pp_ellipticCurve pp))"
    and valid_ct: "validation_isCipherTextTupleValid E ciphertext
                     (fieldOrder (pp_ellipticCurve pp))"
    and finite_U: "\<not> affine_isInfinity E (ct_cipherU ciphertext)"
    and finite_key: "\<not> affine_isInfinity E privateKey"
    and hashed: "hashToPoint E (pp_ellipticCurve pp) (fieldOrder (pp_ellipticCurve pp)) (pp_q pp)
                   ident (int identLength) (pp_hashFunction pp) = (SUCCESS, Q)"
    and l: "l = hashToRange E
                  (fst (randomBytes E (hashLength (pp_hashFunction pp)) rs)
                   @ sha_hash (pp_hashFunction pp) msg)
                  (2 * hashLength (pp_hashFunction pp)) (pp_q pp) (pp_hashFunction pp)"
    and bilinear: "\<And>theta.
          affine_wNAFMultiply E masterSecret (pp_pointP pp) (pp_ellipticCurve pp)
            = (SUCCESS, pp_pointPpublic pp) \<Longrightarrow>
          affine_wNAFMultiply E masterSecret Q (pp_ellipticCurve pp)
            = (SUCCESS, privateKey) \<Longrightarrow>
          affine_wNAFMultiply E l (pp_pointP pp) (pp_ellipticCurve pp)
            = (SUCCESS, ct_cipherU ciphertext) \<Longrightarrow>
          tate_performPairing E 2 (pp_ellipticCurve pp) (pp_q pp) (pp_pointPpublic pp) Q
            = (SUCCESS, theta) \<Longrightarrow>
          \<not> affine_isInfinity E (ct_cipherU ciphertext) \<Longrightarrow>
          \<not> affine_isInfinity E privateKey \<Longrightarrow>
          tate_performPairing E 2 (pp_ellipticCurve pp) (pp_q pp) (ct_cipherU ciphertext)
            privateKey
            = (SUCCESS, complex_modPow E theta l (fieldOrder (pp_ellipticCurve pp)))"
    and equals: "affine_isEquals E (ct_cipherU ciphertext) (ct_cipherU ciphertext)"
    and hash_sized: "\<And>x. length (sha_hash (pp_hashFunction pp) x) = hashLength (pp_hashFunction pp)"
    and random_sized: "length (fst (randomBytes E (hashLength (pp_hashFunction pp)) rs))
                       = hashLength (pp_hashFunction pp)"
    and bytes_sized: "length (hashBytes E (length msg)
                                (fst (randomBytes E (hashLength (pp_hashFunction pp)) rs))
                                (hashLength (pp_hashFunction pp)) (pp_hashFunction pp))
                      = length msg"
  shows "cryptid_decrypt E result1 privateKey ciphertext pp = (SUCCESS, Some msg)"
proof -
  let ?ec = "pp_ellipticCurve pp"
  let ?hf = "pp_hashFunction pp"
  let ?hl = "hashLength ?hf"
  obtain rho rs1 where rb: "randomBytes E ?hl rs = (rho, rs1)"
    by (cases "randomBytes E ?hl rs")
  from random_sized rb have "length rho = ?hl"
    by simp
  then have rho_oct: "octets ?hl rho = rho"
    using octets_length [of rho] by simp
  have t_oct: "\<And>x. octets ?hl (sha_hash ?hf x) = sha_hash ?hf x"
    using octets_length [of "sha_hash ?hf x" for x] by (simp add: hash_sized)
  from l rb have l': "hashToRange E (rho @ sha_hash ?hf msg) (2 * ?hl) (pp_q pp) ?hf = l"
    by simp
  from extracted hashed have
    q2: "affine_wNAFMultiply E masterSecret Q ?ec = (SUCCESS, privateKey)"
    and vpp: "validation_isPublicParametersValid E pp"
    by (auto simp: cryptid_extract_def split: if_splits prod.splits)
  from encrypted hashed vpp obtain U theta where
    u: "affine_wNAFMultiply E l (pp_pointP pp) ?ec = (SUCCESS, U)"
    and t: "tate_performPairing E 2 ?ec (pp_q pp) (pp_pointPpublic pp) Q = (SUCCESS, theta)"
    and ct: "ciphertext =
               \<lparr>ct_cipherU = U,
                ct_cipherV = xor_octets ?hl
                  (sha_hash ?hf (canonical E (fieldOrder ?ec)
                                   (complex_modPow E theta l (fieldOrder ?ec)) 1)) rho,
                ct_cipherVLength = ?hl,
                ct_cipherW = xor_octets (length msg) (hashBytes E (length msg) rho ?hl ?hf) msg,
                ct_cipherWLength = length msg\<rparr>"
    by (auto simp: cryptid_encrypt_def Let_def rb rho_oct t_oct l' octets_length
          split: if_splits prod.splits option.splits)
  have cu: "ct_cipherU ciphertext = U" by (simp add: ct)
  from bilinear [OF master q2 _ t finite_U finite_key] u
  have t': "tate_performPairing E 2 ?ec (pp_q pp) U privateKey
              = (SUCCESS, complex_modPow E theta l (fieldOrder ?ec))"
    by (simp add: cu)
  have r: "xor_octets ?hl
             (sha_hash ?hf (canonical E (fieldOrder ?ec)
                              (complex_modPow E theta l (fieldOrder ?ec)) 1))
             (ct_cipherV ciphertext) = rho"
    by (simp add: ct xor_octets_cancel rho_oct)
  have m: "xor_octets (ct_cipherWLength ciphertext)
             (hashBytes E (ct_cipherWLength ciphertext) rho ?hl ?hf) (ct_cipherW ciphertext) = msg"
    by (simp add: ct xor_octets_cancel octets_length)
  show ?thesis
    using vpp valid_key valid_ct t' u equals
    by (simp add: cryptid_decrypt_def Let_def cu r m rho_oct t_oct l')
qed

text \<open>
  The octets \<open>1, 2\<close> for the identity \<open>a\<close> under \<open>toy_pp\<close>, whose master secret is \<open>2\<close>,
  with the pairing that fails at the point at infinity: the hash point of the identity is
  \<open>2\<close>, the private key is \<open>4\<close>, \<open>l = (7 + 7 + 2 + 3) mod 13 = 6\<close> and \<open>U = 6\<close>.
\<close>

theorem ibe_round_trip_witness:
  "cryptid_extract toy_env_strict (Some 0) ''a'' 1 toy_pp 2 = (SUCCESS, Some 4)
   \<and> cryptid_encrypt toy_env_strict None (Some [1, 2]) (length [1, 2 :: byte]) (Some ''a'') 1
        toy_pp [7]
       = (SUCCESS,
          Some \<lparr>ct_cipherU = 6, ct_cipherV = [6, 31], ct_cipherVLength = 2,
                 ct_cipherW = [15, 13], ct_cipherWLength = 2\<rparr>, [])
   \<and> hashToRange toy_env_strict ([7, 7] @ sha_hash toy_hash [1, 2]) 4 13 toy_hash = 6
   \<and> \<not> affine_isInfinity toy_env_strict 6
   \<and> \<not> affine_isInfinity toy_env_strict 4
   \<and> tate_performPairing toy_env_strict 2 (pp_ellipticCurve toy_pp) (pp_q toy_pp) 6 4
       = (SUCCESS, complex_modPow toy_env_strict 4 6 59)
   \<and> cryptid_decrypt toy_env_strict None 4
        \<lparr>ct_cipherU = 6, ct_cipherV = [6, 31], ct_cipherVLength = 2,
         ct_cipherW = [15, 13], ct_cipherWLength = 2\<rparr> toy_pp
       = (SUCCESS, Some [1, 2])"
proof -
  let ?ct = "\<lparr>ct_cipherU = 6 :: int, ct_cipherV = [6, 31], ct_cipherVLength = 2,
              ct_cipherW = [15, 13], ct_cipherWLength = 2\<rparr>"
  have ms: "affine_wNAFMultiply toy_env_strict 2 (pp_pointP toy_pp) (pp_ellipticCurve toy_pp)
              = (SUCCESS, pp_pointPpublic toy_pp)"
    by (simp add: toy_env_strict_fields toy_pp_def)
  have ex: "cryptid_extract toy_env_strict (Some 0) ''a'' 1 toy_pp 2 = (SUCCESS, Some 4)"
    by (simp add: cryptid_extract_def toy_env_strict_fields toy_pp_def)
  have en: "cryptid_encrypt toy_env_strict None (Some [1, 2]) (length [1, 2 :: byte]) (Some ''a'') 1
              toy_pp [7] = (SUCCESS, Some ?ct, [])"
    by (simp add: cryptid_encrypt_def toy_env_strict_fields toy_pp_def toy_hash_def
          toy_draw_def octets_def xor_octets_def Let_def upt_rec [of _ "numeral n" for n])
  have vk: "validation_isAffinePointValid toy_env_strict 4 (fieldOrder (pp_ellipticCurve toy_pp))"
    and vc: "validation_isCipherTextTupleValid toy_env_strict ?ct
               (fieldOrder (pp_ellipticCurve toy_pp))"
    by (simp_all add: toy_env_strict_fields)
  have fu: "\<not> affine_isInfinity toy_env_strict (ct_cipherU ?ct)"
    and fk: "\<not> affine_isInfinity toy_env_strict 4"
    by (simp_all add: toy_env_strict_fields)
  have hp: "hashToPoint toy_env_strict (pp_ellipticCurve toy_pp)
              (fieldOrder (pp_ellipticCurve toy_pp)) (pp_q toy_pp) ''a'' (int 1)
              (pp_hashFunction toy_pp) = (SUCCESS, 2)"
    by (simp add: toy_env_strict_fields)
  have lv: "hashToRange toy_env_strict ([7, 7] @ sha_hash toy_hash [1, 2]) 4 13 toy_hash = 6"
    by (simp add: toy_env_strict_fields toy_hash_def)
  have l: "6 = hashToRange toy_env_strict
                 (fst (randomBytes toy_env_strict (hashLength (pp_hashFunction toy_pp)) [7])
                  @ sha_hash (pp_hashFunction toy_pp) [1, 2])
                 (2 * hashLength (pp_hashFunction toy_pp)) (pp_q toy_pp) (pp_hashFunction toy_pp)"
    by (simp add: toy_env_strict_fields toy_pp_def toy_hash_def toy_draw_def sum_list_replicate)
  have bl: "\<And>theta.
          affine_wNAFMultiply toy_env_strict 2 (pp_pointP toy_pp) (pp_ellipticCurve toy_pp)
            = (SUCCESS, pp_pointPpublic toy_pp) \<Longrightarrow>
          affine_wNAFMultiply toy_env_strict 2 2 (pp_ellipticCurve toy_pp) = (SUCCESS, 4) \<Longrightarrow>
          affine_wNAFMultiply toy_env_strict 6 (pp_pointP toy_pp) (pp_ellipticCurve toy_pp)
            = (SUCCESS, ct_cipherU ?ct) \<Longrightarrow>
          tate_performPairing toy_env_strict 2 (pp_ellipticCurve toy_pp) (pp_q toy_pp)
            (pp_pointPpublic toy_pp) 2 = (SUCCESS, theta) \<Longrightarrow>
          \<not> affine_isInfinity toy_env_strict (ct_cipherU ?ct) \<Longrightarrow>
          \<not> affine_isInfinity toy_env_strict 4 \<Longrightarrow>
          tate_performPairing toy_env_strict 2 (pp_ellipticCurve toy_pp) (pp_q toy_pp)
            (ct_cipherU ?ct) 4
            = (SUCCESS, complex_modPow toy_env_strict theta 6
                          (fieldOrder (pp_ellipticCurve toy_pp)))"
    by (auto simp: toy_env_strict_fields toy_pp_def)
  have eq: "affine_isEquals toy_env_strict (ct_cipherU ?ct) (ct_cipherU ?ct)"
    by (simp add: toy_env_strict_fields)
  have hs: "\<And>x. length (sha_hash (pp_hashFunction toy_pp) x) = hashLength (pp_hashFunction toy_pp)"
    by (simp add: toy_pp_def toy_hash_def)
  have rs: "length (fst (randomBytes toy_env_strict (hashLength (pp_hashFunction toy_pp)) [7]))
              = hashLength (pp_hashFunction toy_pp)"
    by (simp add: toy_env_strict_fields)
  have bs: "length (hashBytes toy_env_strict (length [1, 2 :: byte])
                      (fst (randomBytes toy_env_strict (hashLength (pp_hashFunction toy_pp)) [7]))
                      (hashLength (pp_hashFunction toy_pp)) (pp_hashFunction toy_pp))
              = length [1, 2 :: byte]"
    by (simp add: toy_env_strict_fields)
  have pr: "tate_performPairing toy_env_strict 2 (pp_ellipticCurve toy_pp) (pp_q toy_pp) 6 4
              = (SUCCESS, complex_modPow toy_env_strict 4 6 59)"
    by (simp add: toy_env_strict_fields)
  have "cryptid_decrypt toy_env_strict None 4 ?ct toy_pp = (SUCCESS, Some [1, 2])"
    by (rule ibe_round_trip [where ?result1.0 = None, OF ms ex en vk vc fu fk hp l bl eq hs rs bs])
  with ex en lv fu fk pr show ?thesis by simp
qed

text \<open>
  Claim C1 as stated fails for a message whose \<open>l\<close> is a multiple of \<open>q\<close>. For the octet
  \<open>11\<close> and the random octets \<open>7, 7\<close>, \<open>l = (7 + 7 + 1 + 11) mod 13 = 0\<close>: the extraction
  and the encryption succeed, the point \<open>U = l P\<close> of the ciphertext is the point at
  infinity, and the decryption returns the error of the pairing and no plaintext.
\<close>

theorem ibe_round_trip_fails_at_infinity:
  "cryptid_extract toy_env_strict (Some 0) ''a'' 1 toy_pp 2 = (SUCCESS, Some 4)
   \<and> cryptid_encrypt toy_env_strict None (Some [11]) 1 (Some ''a'') 1 toy_pp [7]
       = (SUCCESS,
          Some \<lparr>ct_cipherU = 0, ct_cipherV = [6, 7], ct_cipherVLength = 2,
                 ct_cipherW = [5], ct_cipherWLength = 1\<rparr>, [])
   \<and> affine_isInfinity toy_env_strict 0
   \<and> cryptid_decrypt toy_env_strict None 4
        \<lparr>ct_cipherU = 0, ct_cipherV = [6, 7], ct_cipherVLength = 2,
         ct_cipherW = [5], ct_cipherWLength = 1\<rparr> toy_pp
       = (CRYPTID_HELPER_ERROR 1, None)"
proof -
  have ex: "cryptid_extract toy_env_strict (Some 0) ''a'' 1 toy_pp 2 = (SUCCESS, Some 4)"
    by (simp add: cryptid_extract_def toy_env_strict_fields toy_pp_def)
  have en: "cryptid_encrypt toy_env_strict None (Some [11]) 1 (Some ''a'') 1 toy_pp [7]
       = (SUCCESS,
          Some \<lparr>ct_cipherU = 0, ct_cipherV = [6, 7], ct_cipherVLength = 2,
                 ct_cipherW = [5], ct_cipherWLength = 1\<rparr>, [])"
    by (simp add: cryptid_encrypt_def toy_env_strict_fields toy_pp_def toy_hash_def
          toy_draw_def octets_def xor_octets_def Let_def upt_rec [of _ "numeral n" for n])
  have inf: "affine_isInfinity toy_env_strict 0"
    by (simp add: toy_env_strict_fields)
  have de: "cryptid_decrypt toy_env_strict None 4
        \<lparr>ct_cipherU = 0, ct_cipherV = [6, 7], ct_cipherVLength = 2,
         ct_cipherW = [5], ct_cipherWLength = 1\<rparr> toy_pp
       = (CRYPTID_HELPER_ERROR 1, None)"
    by (simp add: cryptid_decrypt_def toy_env_strict_fields toy_pp_def)
  from ex en inf de show ?thesis by simp
qed

end
